theory Spec2Isabelle
  imports Complex_Main "HOL-Library.Sublist"
begin

section \<open>Values, errors and the world the CLI runs in\<close>

text \<open>
  The program throws plain \<open>Error(message)\<close> objects everywhere except in the
  Crashlytics client, which throws \<open>CrashlyticsApiError(message, statusCode, statusText)\<close>.
  The kind of a failure is carried by its message (and, for the client, by the status code).
\<close>

datatype exn = Error string | CrashlyticsApiError string nat string

fun message :: "exn \<Rightarrow> string" where
  "message (Error m) = m"
| "message (CrashlyticsApiError m _ _) = m"

text \<open>\<open>s.includes(t)\<close> on strings.\<close>

definition js_includes :: "string \<Rightarrow> string \<Rightarrow> bool" where
  "js_includes s t = sublist t s"

text \<open>
  JavaScript truthiness of a value of type \<open>string | null | undefined\<close>:
  \<open>None\<close> stands for \<open>null\<close>/\<open>undefined\<close>, and the empty string is falsy too.
\<close>

fun truthy :: "string option \<Rightarrow> bool" where
  "truthy None = False"
| "truthy (Some s) = (s \<noteq> [])"

text \<open>Decimal rendering of a status code inside a template string.\<close>

fun show_nat :: "nat \<Rightarrow> string" where
  "show_nat n =
     (if n < 10 then [char_of (48 + n)]
      else show_nat (n div 10) @ [char_of (48 + n mod 10)])"

text \<open>\<open>path.join\<close> on already normalised segments.\<close>

fun join :: "string list \<Rightarrow> string" where
  "join [] = ''.''"
| "join [p] = p"
| "join (p # ps) = p @ ''/'' @ join ps"

text \<open>
  JSON documents, and JavaScript numbers as the config writer can hold them in memory.
  \<open>JNum r\<close> is a numeral of value \<open>r\<close>, and \<open>JNegZero\<close> the numeral \<open>-0\<close>.
  \<open>JSON.parse\<close> reads a numeral as a double: as \<open>Infinity\<close> or \<open>-Infinity\<close> when
  its value is beyond the range of a double (\<open>to_double\<close> below), as in \<open>1e400\<close>.
  Numerals within the range are taken up to the double they denote.
\<close>

datatype json = JNull | JBool bool | JNum rat | JNegZero | JStr string
  | JArr "json list" | JObj "(string \<times> json) list"

datatype jsnum = NaN | PosInf | NegInf | Fin rat

text \<open>
  What a file holds, as the readers of this program see it: \<open>readFile\<close> fails with
  \<open>ENOENT\<close> (\<open>Absent\<close>) or with another error and its message (\<open>Unreadable\<close>),
  or the text is not JSON (\<open>Corrupt\<close>), or it parses to a value of the declared
  interface (\<open>Parsed\<close>).
\<close>

datatype 'a fnode = Absent | Unreadable string | Corrupt | Parsed 'a

text \<open>\<open>interface FccConfig { ...; [key: string]: unknown }\<close>: a JSON object.\<close>

type_synonym FccConfig = "string \<rightharpoonup> json"

text \<open>The outcome of \<open>fetch\<close>: it rejects, or resolves to a response.\<close>

record 'a response =
  status :: nat
  statusText :: string
  body_text :: string
  body_json :: "'a option"

datatype 'a fetch_result = Rejected string | Resolved "'a response"

definition ok :: "'a response \<Rightarrow> bool" where
  "ok r = (200 \<le> status r \<and> status r \<le> 299)"

text \<open>
  Body of the OAuth token endpoint, read through the interfaces \<open>TokenResponse\<close> and
  \<open>TokenErrorResponse\<close>; a field the body lacks is \<open>None\<close>.
\<close>

record token_body =
  error :: "string option"
  error_description :: "string option"
  access_token :: "string option"
  expires_in :: int

record FirebaseProject =
  projectId :: string
  projectNumber :: string
  displayName :: string
  name :: string

datatype platform = ANDROID | IOS

record FirebaseApp =
  platform :: platform
  appId :: string
  app_displayName :: string
  packageName :: "string option"
  bundleId :: "string option"

text \<open>\<open>AndroidApp\<close> and \<open>IosApp\<close>: the third field is \<open>packageName\<close> or \<open>bundleId\<close>.\<close>

record RawApp =
  raw_appId :: string
  raw_displayName :: "string option"
  raw_identifier :: "string option"

datatype io_event =
    ReadFile string
  | WriteFile string
  | Mkdir string
  | Fetch string string

text \<open>
  The state of one process and its surroundings. \<open>cachedAccessToken\<close> and
  \<open>tokenExpiresAt\<close> are the two module variables of the token cache; \<open>clock\<close> is what
  \<open>Date.now()\<close> returns; the four files are the ones the program reads; the servers
  answer by URL; \<open>trace\<close> records every file and network operation in order, and each
  operation lets \<open>latency\<close> milliseconds pass.
\<close>

record world =
  cachedAccessToken :: "string option"
  tokenExpiresAt :: int
  clock :: int
  homedir :: string
  cwd :: string
  firebase_tools :: "string option fnode"
  firebaserc :: "string option fnode"
  local_config :: "FccConfig fnode"
  global_config :: "FccConfig fnode"
  mkdir_error :: "string \<Rightarrow> string option"
  write_error :: "string \<Rightarrow> string option"
  token_endpoint :: "int \<Rightarrow> string \<Rightarrow> token_body fetch_result"
  project_api :: "string \<Rightarrow> FirebaseProject fetch_result"
  apps_api :: "string \<Rightarrow> RawApp list option fetch_result"
  crashlytics_api :: "string \<Rightarrow> string \<Rightarrow> json fetch_result"
  latency :: "io_event \<Rightarrow> nat"
  trace :: "io_event list"

definition do_io :: "io_event \<Rightarrow> world \<Rightarrow> world" where
  "do_io ev w = w\<lparr>trace := trace w @ [ev], clock := clock w + int (latency w ev)\<rparr>"

fun is_fetch :: "io_event \<Rightarrow> bool" where
  "is_fetch (Fetch _ _) = True"
| "is_fetch _ = False"

definition network_calls :: "world \<Rightarrow> io_event list" where
  "network_calls w = filter is_fetch (trace w)"

section \<open>Token cache (auth/firebase-auth)\<close>

definition TOKEN_ENDPOINT :: string where
  "TOKEN_ENDPOINT = ''https://oauth2.googleapis.com/token''"

definition getFirebaseConfigPath :: "world \<Rightarrow> string" where
  "getFirebaseConfigPath w =
     join [homedir w, ''.config'', ''configstore'', ''firebase-tools.json'']"

text \<open>
  \<open>readRefreshToken\<close>: the parsed file is reduced to \<open>config?.tokens?.refresh_token\<close>,
  the only thing the program reads from it.
\<close>

definition readRefreshToken :: "world \<Rightarrow> (exn + string) \<times> world" where
  "readRefreshToken w =
     (let configPath = getFirebaseConfigPath w;
          w1 = do_io (ReadFile configPath) w
      in case firebase_tools w of
           Absent \<Rightarrow>
             (Inl (Error ''Firebase CLI config not found. Run `firebase login` first to authenticate.''), w1)
         | Unreadable m \<Rightarrow>
             (Inl (Error (''Failed to read Firebase CLI config at '' @ configPath @ '': '' @ m)), w1)
         | Corrupt \<Rightarrow>
             (Inl (Error (''Failed to parse Firebase CLI config at '' @ configPath
                @ ''. The file may be corrupted. Try running `firebase login` again.'')), w1)
         | Parsed refreshToken \<Rightarrow>
             (if \<not> truthy refreshToken
              then (Inl (Error ''No refresh token found in Firebase CLI config. Run `firebase login` first to authenticate.''), w1)
              else (Inr (the refreshToken), w1)))"

text \<open>The separator of the source's template, byte for byte.\<close>

definition dash :: string where
  "dash = [CHR 0x20, CHR 0xC3, CHR 0xA2, CHR 0xE2, CHR 0x82, CHR 0xAC, CHR 0xE2, CHR 0x80, CHR 0x9D, CHR 0x20]"

text \<open>A missing field inside a template string prints as \<open>undefined\<close>.\<close>

fun template :: "string option \<Rightarrow> string" where
  "template None = ''undefined''"
| "template (Some s) = s"

definition refresh_error_message :: "token_body response \<Rightarrow> string" where
  "refresh_error_message r =
     (case body_json r of
        None \<Rightarrow> ''Token refresh failed with status '' @ show_nat (status r)
      | Some errorBody \<Rightarrow>
          (if error errorBody = Some ''invalid_grant''
           then ''Firebase token is invalid or expired. Run `firebase login` again to re-authenticate.''
           else ''Token refresh failed: '' @ template (error errorBody)
                @ (if truthy (error_description errorBody)
                   then dash @ the (error_description errorBody) else [])))"

definition refreshAccessToken :: "string \<Rightarrow> world \<Rightarrow> (exn + string) \<times> world" where
  "refreshAccessToken refreshToken w =
     (let w1 = do_io (Fetch ''POST'' TOKEN_ENDPOINT) w
      in case token_endpoint w (clock w) refreshToken of
           Rejected m \<Rightarrow>
             (Inl (Error (''Network error while refreshing access token: '' @ m)), w1)
         | Resolved r \<Rightarrow>
             (if \<not> ok r then (Inl (Error (refresh_error_message r)), w1)
              else case body_json r of
                None \<Rightarrow>
                  (Inl (Error ''Failed to parse token response from Google OAuth2 endpoint.''), w1)
              | Some tokenData \<Rightarrow>
                  (if \<not> truthy (access_token tokenData)
                   then (Inl (Error ''No access token returned from Google OAuth2 endpoint. Try running `firebase login` again.''), w1)
                   else (Inr (the (access_token tokenData)),
                         w1\<lparr>cachedAccessToken := access_token tokenData,
                            tokenExpiresAt := clock w1 + (expires_in tokenData - 60) * 1000\<rparr>))))"

definition getAccessToken :: "world \<Rightarrow> (exn + string) \<times> world" where
  "getAccessToken w =
     (if truthy (cachedAccessToken w) \<and> clock w < tokenExpiresAt w
      then (Inr (the (cachedAccessToken w)), w)
      else case readRefreshToken w of
             (Inl e, w1) \<Rightarrow> (Inl e, w1)
           | (Inr refreshToken, w1) \<Rightarrow> refreshAccessToken refreshToken w1)"

section \<open>JavaScript values written to config files\<close>

text \<open>
  The \<open>unknown\<close> value handed to the writers: the callers pass a string or a number.
  \<open>to_json\<close> is what \<open>JSON.parse\<close> reads back from the text that
  \<open>JSON.stringify\<close> writes for it: a number that is not finite is written as \<open>null\<close>.
\<close>

datatype jsval = Str string | Num jsnum

fun to_json :: "jsval \<Rightarrow> json" where
  "to_json (Str s) = JStr s"
| "to_json (Num (Fin r)) = JNum r"
| "to_json (Num _) = JNull"

text \<open>
  \<open>Number(value)\<close> on a string, after the StringNumericLiteral grammar of ECMAScript
  over ASCII: white space is trimmed, the empty string is 0, a literal is a decimal with
  optional sign, fraction and exponent, a signed \<open>Infinity\<close>, or an unsigned
  hexadecimal, octal or binary integer; anything else is \<open>NaN\<close>. A value beyond the
  range of a double is infinite; rounding of finite values is not modelled.
\<close>

definition is_space :: "char \<Rightarrow> bool" where
  "is_space c = (c \<in> set [CHR 0x09, CHR 0x0A, CHR 0x0B, CHR 0x0C, CHR 0x0D, CHR 0x20])"

definition trim :: "string \<Rightarrow> string" where
  "trim s = rev (dropWhile is_space (rev (dropWhile is_space s)))"

definition digit_of :: "nat \<Rightarrow> char \<Rightarrow> nat option" where
  "digit_of base c =
     (let n = of_char c :: nat;
          d = (if 48 \<le> n \<and> n \<le> 57 then n - 48
               else if 97 \<le> n \<and> n \<le> 122 then n - 87
               else if 65 \<le> n \<and> n \<le> 90 then n - 55
               else base)
      in if d < base then Some d else None)"

fun digits_value :: "nat \<Rightarrow> nat \<Rightarrow> string \<Rightarrow> nat option" where
  "digits_value base acc [] = Some acc"
| "digits_value base acc (c # cs) =
     (case digit_of base c of
        None \<Rightarrow> None
      | Some d \<Rightarrow> digits_value base (acc * base + d) cs)"

definition numeral_value :: "nat \<Rightarrow> string \<Rightarrow> nat option" where
  "numeral_value base s = (if s = [] then None else digits_value base 0 s)"

definition is_digit :: "char \<Rightarrow> bool" where
  "is_digit c = (digit_of 10 c \<noteq> None)"

definition exponent_part :: "string \<Rightarrow> int option" where
  "exponent_part s =
     (case s of
        [] \<Rightarrow> Some 0
      | c # cs \<Rightarrow>
          (if c = CHR ''e'' \<or> c = CHR ''E'' then
             (case cs of
                [] \<Rightarrow> None
              | d # ds \<Rightarrow>
                  (if d = CHR ''-'' then map_option (\<lambda>n. - int n) (numeral_value 10 ds)
                   else if d = CHR ''+'' then map_option int (numeral_value 10 ds)
                   else map_option int (numeral_value 10 cs)))
           else None))"

definition unsigned_decimal :: "string \<Rightarrow> rat option" where
  "unsigned_decimal s =
     (let ip = takeWhile is_digit s; r1 = dropWhile is_digit s;
          dot = (r1 \<noteq> [] \<and> hd r1 = CHR ''.'');
          fp = (if dot then takeWhile is_digit (tl r1) else []);
          r2 = (if dot then dropWhile is_digit (tl r1) else r1)
      in if ip = [] \<and> fp = [] then None
         else case exponent_part r2 of
                None \<Rightarrow> None
              | Some e \<Rightarrow>
                  Some ((of_nat (the (digits_value 10 0 ip))
                         + of_nat (the (digits_value 10 0 fp)) / 10 ^ length fp)
                        * (if 0 \<le> e then 10 ^ nat e else 1 / 10 ^ nat (- e))))"

definition to_double :: "rat \<Rightarrow> jsnum" where
  "to_double v =
     (if v \<ge> 2 ^ 1024 - 2 ^ 970 then PosInf
      else if v \<le> - (2 ^ 1024 - 2 ^ 970) then NegInf
      else Fin v)"

definition str_decimal :: "string \<Rightarrow> jsnum" where
  "str_decimal s =
     (let neg = (s \<noteq> [] \<and> hd s = CHR ''-'');
          body = (if s \<noteq> [] \<and> (hd s = CHR ''-'' \<or> hd s = CHR ''+'') then tl s else s)
      in if body = ''Infinity'' then (if neg then NegInf else PosInf)
         else case unsigned_decimal body of
                None \<Rightarrow> NaN
              | Some v \<Rightarrow> to_double (if neg then - v else v))"

definition non_decimal :: "string \<Rightarrow> jsnum option" where
  "non_decimal s =
     (case s of
        z # p # ds \<Rightarrow>
          (if z \<noteq> CHR ''0'' then None
           else let base = (if p = CHR ''x'' \<or> p = CHR ''X'' then 16
                            else if p = CHR ''o'' \<or> p = CHR ''O'' then 8
                            else if p = CHR ''b'' \<or> p = CHR ''B'' then 2 else 0 :: nat)
                in if base = 0 then None
                   else Some (case numeral_value base ds of
                                None \<Rightarrow> NaN
                              | Some n \<Rightarrow> to_double (of_nat n)))
      | _ \<Rightarrow> None)"

definition js_Number :: "string \<Rightarrow> jsnum" where
  "js_Number value =
     (let s = trim value
      in if s = [] then Fin 0
         else case non_decimal s of
                Some n \<Rightarrow> n
              | None \<Rightarrow> str_decimal s)"

section \<open>Config store (utils/config)\<close>

datatype config_type = string_type | number_type

definition KNOWN_CONFIG_KEYS :: "string \<rightharpoonup> config_type" where
  "KNOWN_CONFIG_KEYS = map_of
     [(''project'', string_type), (''projectId'', string_type),
      (''projectNumber'', string_type), (''app'', string_type), (''appId'', string_type),
      (''defaultType'', string_type), (''defaultLimit'', number_type)]"

definition getLocalConfigPath :: "world \<Rightarrow> string" where
  "getLocalConfigPath w = join [cwd w, ''.fcc.json'']"

definition getGlobalConfigPath :: "world \<Rightarrow> string" where
  "getGlobalConfigPath w = join [homedir w, ''.config'', ''fcc'', ''config.json'']"

definition readConfig :: "world \<Rightarrow> (exn + FccConfig option) \<times> world" where
  "readConfig w =
     (let configPath = getLocalConfigPath w;
          w1 = do_io (ReadFile configPath) w
      in case local_config w of
           Absent \<Rightarrow> (Inr None, w1)
         | Unreadable m \<Rightarrow>
             (Inl (Error (''Failed to read local config at '' @ configPath @ '': '' @ m)), w1)
         | Corrupt \<Rightarrow>
             (Inl (Error (''Failed to parse local config at '' @ configPath
                @ ''. The file may be corrupted.'')), w1)
         | Parsed c \<Rightarrow> (Inr (Some c), w1))"

text \<open>\<open>x ?? {}\<close>\<close>

fun or_empty :: "FccConfig option \<Rightarrow> FccConfig" where
  "or_empty None = Map.empty"
| "or_empty (Some c) = c"

text \<open>
  What the file holds after \<open>JSON.parse\<close> has read a value and
  \<open>JSON.stringify\<close> has written it: the value itself, with \<open>null\<close> in the place
  of every numeral beyond the range of a double, which is read as an infinity, and
  \<open>0\<close> in the place of every \<open>-0\<close>.
\<close>

primrec written_back :: "json \<Rightarrow> json" where
  "written_back JNull = JNull"
| "written_back (JBool b) = JBool b"
| "written_back (JNum r) = (case to_double r of Fin q \<Rightarrow> JNum q | _ \<Rightarrow> JNull)"
| "written_back JNegZero = JNum 0"
| "written_back (JStr s) = JStr s"
| "written_back (JArr xs) = JArr (map written_back xs)"
| "written_back (JObj kvs) = JObj (map (map_prod id written_back) kvs)"

text \<open>
  \<open>existing[key] = value\<close> on an object whose prototype is \<open>Object.prototype\<close>: the
  key \<open>__proto__\<close>, unless it is an own property, reaches the inherited setter, which
  ignores a string or a number.
\<close>

text \<open>
  The object that \<open>JSON.stringify(existing, null, 2)\<close> leaves in the file: every
  property of \<open>existing\<close>, written back.
\<close>

definition stringify :: "FccConfig \<Rightarrow> FccConfig" where
  "stringify existing = map_option written_back \<circ> existing"

definition set_property :: "FccConfig \<Rightarrow> string \<Rightarrow> json \<Rightarrow> FccConfig" where
  "set_property existing key v =
     (if key = ''__proto__'' \<and> existing key = None then existing else existing(key \<mapsto> v))"

definition writeConfig :: "string \<Rightarrow> jsval \<Rightarrow> world \<Rightarrow> (exn + unit) \<times> world" where
  "writeConfig key v w =
     (let configPath = getLocalConfigPath w
      in case readConfig w of
           (Inl e, w1) \<Rightarrow> (Inl e, w1)
         | (Inr c, w1) \<Rightarrow>
             (let existing = set_property (or_empty c) key (to_json v);
                  w2 = do_io (WriteFile configPath) w1
              in case write_error w configPath of
                   Some m \<Rightarrow> (Inl (Error m), w2)
                 | None \<Rightarrow> (Inr (), w2\<lparr>local_config := Parsed (stringify existing)\<rparr>)))"

definition readGlobalConfig :: "world \<Rightarrow> (exn + FccConfig option) \<times> world" where
  "readGlobalConfig w =
     (let configPath = getGlobalConfigPath w;
          w1 = do_io (ReadFile configPath) w
      in case global_config w of
           Absent \<Rightarrow> (Inr None, w1)
         | Unreadable m \<Rightarrow>
             (Inl (Error (''Failed to read global config at '' @ configPath @ '': '' @ m)), w1)
         | Corrupt \<Rightarrow>
             (Inl (Error (''Failed to parse global config at '' @ configPath
                @ ''. The file may be corrupted.'')), w1)
         | Parsed c \<Rightarrow> (Inr (Some c), w1))"

definition writeGlobalConfig :: "string \<Rightarrow> jsval \<Rightarrow> world \<Rightarrow> (exn + unit) \<times> world" where
  "writeGlobalConfig key v w =
     (let configPath = getGlobalConfigPath w;
          configDir = join [homedir w, ''.config'', ''fcc''];
          w0 = do_io (Mkdir configDir) w
      in case mkdir_error w configDir of
           Some m \<Rightarrow> (Inl (Error m), w0)
         | None \<Rightarrow>
             (case readGlobalConfig w0 of
                (Inl e, w1) \<Rightarrow> (Inl e, w1)
              | (Inr c, w1) \<Rightarrow>
                  (let existing = set_property (or_empty c) key (to_json v);
                       w2 = do_io (WriteFile configPath) w1
                   in case write_error w configPath of
                        Some m \<Rightarrow> (Inl (Error m), w2)
                      | None \<Rightarrow> (Inr (), w2\<lparr>global_config := Parsed (stringify existing)\<rparr>))))"

definition getMergedConfig :: "world \<Rightarrow> (exn + FccConfig) \<times> world" where
  "getMergedConfig w =
     (case readGlobalConfig w of
        (Inl e, w1) \<Rightarrow> (Inl e, w1)
      | (Inr g, w1) \<Rightarrow>
          (case readConfig w1 of
             (Inl e, w2) \<Rightarrow> (Inl e, w2)
           | (Inr l, w2) \<Rightarrow> (Inr (or_empty g ++ or_empty l), w2)))"

definition isNaN :: "jsnum \<Rightarrow> bool" where
  "isNaN n = (n = NaN)"

definition coerceConfigValue :: "string \<Rightarrow> string \<Rightarrow> exn + jsval" where
  "coerceConfigValue key v =
     (if KNOWN_CONFIG_KEYS key = Some number_type then
        (let num = js_Number v
         in if isNaN num
            then Inl (Error (''Value for \"'' @ key @ ''\" must be a number, got \"'' @ v @ ''\".''))
            else Inr (Num num))
      else Inr (Str v))"

text \<open>
  The actions of \<open>config set\<close> and \<open>config set-global\<close> (commands/config), without
  their console output: coerce, then write to the one scope.
\<close>

definition config_set :: "string \<Rightarrow> string \<Rightarrow> world \<Rightarrow> (exn + unit) \<times> world" where
  "config_set key v w =
     (case coerceConfigValue key v of
        Inl e \<Rightarrow> (Inl e, w)
      | Inr coerced \<Rightarrow> writeConfig key coerced w)"

definition config_set_global :: "string \<Rightarrow> string \<Rightarrow> world \<Rightarrow> (exn + unit) \<times> world" where
  "config_set_global key v w =
     (case coerceConfigValue key v of
        Inl e \<Rightarrow> (Inl e, w)
      | Inr coerced \<Rightarrow> writeGlobalConfig key coerced w)"

text \<open>\<open>===\<close> between a value held in memory and a value read from a file.\<close>

fun strict_equal :: "jsval \<Rightarrow> json \<Rightarrow> bool" where
  "strict_equal (Str s) (JStr t) = (s = t)"
| "strict_equal (Num (Fin r)) (JNum q) = (r = q)"
| "strict_equal _ _ = False"

text \<open>Reading one key of the local scope: \<open>(await readConfig())?.[key]\<close>.\<close>

definition local_value :: "string \<Rightarrow> world \<Rightarrow> exn + json option" where
  "local_value key w =
     (case fst (readConfig w) of Inl e \<Rightarrow> Inl e | Inr config \<Rightarrow> Inr (or_empty config key))"

text \<open>The object a config file holds, empty when the file does not hold one.\<close>

fun content :: "FccConfig fnode \<Rightarrow> FccConfig" where
  "content (Parsed c) = c"
| "content _ = Map.empty"

section \<open>Project and app resolver (api/firebase-project)\<close>

definition FIREBASE_API_BASE :: string where
  "FIREBASE_API_BASE = ''https://firebase.googleapis.com/v1beta1''"

text \<open>
  \<open>firebaseApiGet<T>\<close>; \<open>api\<close> selects the server that answers with bodies of type \<open>T\<close>.
\<close>

definition firebaseApiGet ::
  "(world \<Rightarrow> string \<Rightarrow> 'a fetch_result) \<Rightarrow> string \<Rightarrow> world \<Rightarrow> (exn + 'a) \<times> world" where
  "firebaseApiGet api path w =
     (case getAccessToken w of
        (Inl e, w1) \<Rightarrow> (Inl e, w1)
      | (Inr accessToken, w1) \<Rightarrow>
          (let url = FIREBASE_API_BASE @ ''/'' @ path;
               w2 = do_io (Fetch ''GET'' url) w1
           in case api w url of
                Rejected m \<Rightarrow>
                  (Inl (Error (''Network error while calling Firebase API: '' @ m)), w2)
              | Resolved r \<Rightarrow>
                  (if \<not> ok r then
                     (let body = body_text r
                      in (Inl (Error
                           (if status r = 401 then
                              ''Authentication failed. Your access token is invalid or expired. Try running `firebase login` again.''
                            else if status r = 403 then
                              ''Access denied. You do not have permission to access this Firebase project.''
                            else if status r = 404 then
                              ''Firebase project not found. Verify the project ID is correct. API responded: '' @ body
                            else ''Firebase API error ('' @ show_nat (status r) @ ''): '' @ body)), w2))
                   else case body_json r of
                          None \<Rightarrow>
                            (Inl (Error ''Failed to parse JSON response from the Firebase API.''), w2)
                        | Some v \<Rightarrow> (Inr v, w2))))"

text \<open>
  \<open>readFirebaseRc\<close>: the parsed file is reduced to \<open>rc.projects?.default ?? null\<close>.
\<close>

definition readFirebaseRc :: "world \<Rightarrow> (exn + string option) \<times> world" where
  "readFirebaseRc w =
     (let rcPath = join [cwd w, ''.firebaserc''];
          w1 = do_io (ReadFile rcPath) w
      in case firebaserc w of
           Absent \<Rightarrow> (Inr None, w1)
         | Unreadable m \<Rightarrow> (Inl (Error (''Failed to read .firebaserc: '' @ m)), w1)
         | Corrupt \<Rightarrow>
             (Inl (Error ''Failed to parse .firebaserc. The file may be corrupted.''), w1)
         | Parsed d \<Rightarrow> (Inr d, w1))"

text \<open>
  \<open>config?.project\<close> and \<open>config?.app\<close>, which the interface declares as
  \<open>string | undefined\<close>: \<open>null\<close> and a missing key read as absent. A file that holds
  a value of another JSON type there is outside the interface; the properties below
  exclude it.
\<close>

definition string_field :: "FccConfig option \<Rightarrow> string \<Rightarrow> string option" where
  "string_field config key =
     (case or_empty config key of Some (JStr s) \<Rightarrow> Some s | _ \<Rightarrow> None)"

definition resolveProject :: "string option \<Rightarrow> world \<Rightarrow> (exn + FirebaseProject) \<times> world" where
  "resolveProject projectIdOrFlag w =
     (case (if \<not> truthy projectIdOrFlag then readFirebaseRc w
            else (Inr projectIdOrFlag, w)) of
        (Inl e, w1) \<Rightarrow> (Inl e, w1)
      | (Inr projectId1, w1) \<Rightarrow>
          (case (if \<not> truthy projectId1 then
                   (case readConfig w1 of
                      (Inl e, w2) \<Rightarrow> (Inl e, w2)
                    | (Inr config, w2) \<Rightarrow> (Inr (string_field config ''project''), w2))
                 else (Inr projectId1, w1)) of
             (Inl e, w2) \<Rightarrow> (Inl e, w2)
           | (Inr projectId2, w2) \<Rightarrow>
               (if \<not> truthy projectId2 then
                  (Inl (Error ''No project specified. Use --project <projectId>, `fcc set project <id>`, or run `fcc projects list` to see available projects.''), w2)
                else case firebaseApiGet project_api (''projects/'' @ the projectId2) w2 of
                       (Inl e, w3) \<Rightarrow> (Inl e, w3)
                     | (Inr project, w3) \<Rightarrow>
                         (Inr \<lparr>projectId = projectId project,
                               projectNumber = projectNumber project,
                               displayName = displayName project,
                               name = name project\<rparr>, w3))))"

definition android_app :: "RawApp \<Rightarrow> FirebaseApp" where
  "android_app app = \<lparr>platform = ANDROID, appId = raw_appId app,
     app_displayName = (case raw_displayName app of None \<Rightarrow> [] | Some d \<Rightarrow> d),
     packageName = raw_identifier app, bundleId = None\<rparr>"

definition ios_app :: "RawApp \<Rightarrow> FirebaseApp" where
  "ios_app app = \<lparr>platform = IOS, appId = raw_appId app,
     app_displayName = (case raw_displayName app of None \<Rightarrow> [] | Some d \<Rightarrow> d),
     packageName = None, bundleId = raw_identifier app\<rparr>"

text \<open>
  \<open>listApps\<close>. The two requests of its \<open>Promise.all\<close> are taken one after the other,
  Android first; the list it returns when both succeed does not depend on their order.
\<close>

definition listApps :: "string \<Rightarrow> world \<Rightarrow> (exn + FirebaseApp list) \<times> world" where
  "listApps projectNumber' w =
     (case firebaseApiGet apps_api (''projects/'' @ projectNumber' @ ''/androidApps'') w of
        (Inl e, w1) \<Rightarrow> (Inl e, w1)
      | (Inr androidResponse, w1) \<Rightarrow>
          (case firebaseApiGet apps_api (''projects/'' @ projectNumber' @ ''/iosApps'') w1 of
             (Inl e, w2) \<Rightarrow> (Inl e, w2)
           | (Inr iosResponse, w2) \<Rightarrow>
               (Inr ((case androidResponse of None \<Rightarrow> [] | Some apps \<Rightarrow> map android_app apps)
                     @ (case iosResponse of None \<Rightarrow> [] | Some apps \<Rightarrow> map ios_app apps)), w2)))"

definition resolveApp :: "string option \<Rightarrow> string option \<Rightarrow> world \<Rightarrow> (exn + string) \<times> world" where
  "resolveApp appIdOrFlag projectNumber' w =
     (if truthy appIdOrFlag then (Inr (the appIdOrFlag), w)
      else case readConfig w of
             (Inl e, w1) \<Rightarrow> (Inl e, w1)
           | (Inr config, w1) \<Rightarrow>
               (if truthy (string_field config ''app'')
                then (Inr (the (string_field config ''app'')), w1)
                else if \<not> truthy projectNumber' then
                  (Inl (Error (''Could not determine the Firebase app. Provide --app <appId>, ''
                     @ ''or set it in .fcc.json, or provide --project so apps can be listed.'')), w1)
                else case listApps (the projectNumber') w1 of
                       (Inl e, w2) \<Rightarrow> (Inl e, w2)
                     | (Inr apps, w2) \<Rightarrow>
                         (case apps of
                            [] \<Rightarrow>
                              (Inl (Error (''No apps found in Firebase project \"''
                                 @ the projectNumber' @ ''\". ''
                                 @ ''Register an app in the Firebase Console first.'')), w2)
                          | selectedApp # _ \<Rightarrow> (Inr (appId selectedApp), w2))))"

section \<open>Crashlytics client (api/crashlytics)\<close>

definition BASE_URL :: string where
  "BASE_URL = ''https://firebasecrashlytics.googleapis.com/v1alpha''"

record CrashlyticsClient =
  client_projectNumber :: string
  client_appId :: string

definition resourcePath :: "CrashlyticsClient \<Rightarrow> string" where
  "resourcePath this = ''projects/'' @ client_projectNumber this @ ''/apps/'' @ client_appId this"

text \<open>
  \<open>request\<close> as \<open>getIssue\<close> calls it, without query parameters and body. A 204
  response gives \<open>undefined\<close>, here \<open>None\<close>.
\<close>

definition request ::
  "CrashlyticsClient \<Rightarrow> string \<Rightarrow> string \<Rightarrow> world \<Rightarrow> (exn + json option) \<times> world" where
  "request this method path w =
     (case getAccessToken w of
        (Inl e, w1) \<Rightarrow> (Inl e, w1)
      | (Inr accessToken, w1) \<Rightarrow>
          (let url = BASE_URL @ ''/'' @ path;
               w2 = do_io (Fetch method url) w1
           in case crashlytics_api w method url of
                Rejected m \<Rightarrow>
                  (Inl (Error (''Network error while calling Crashlytics API: '' @ m)), w2)
              | Resolved r \<Rightarrow>
                  (if \<not> ok r then
                     (let errorBody = body_text r
                      in (if status r = 401 then
                            Inl (CrashlyticsApiError
                              ''Authentication failed. Your access token is invalid or expired. Try running `firebase login` again.''
                              401 (statusText r))
                          else if status r = 403 then
                            Inl (CrashlyticsApiError
                              ''Access denied. You do not have permission to access this resource. Check that your account has the required Firebase Crashlytics permissions.''
                              403 (statusText r))
                          else if status r = 404 then
                            Inl (CrashlyticsApiError
                              (''Resource not found. Verify that project \"'' @ client_projectNumber this
                                @ ''\" and app \"'' @ client_appId this @ ''\" exist and are correct.'')
                              404 (statusText r))
                          else if status r = 429 then
                            Inl (CrashlyticsApiError
                              ''Rate limit exceeded. Too many requests to the Crashlytics API. Please wait a moment and try again.''
                              429 (statusText r))
                          else
                            Inl (CrashlyticsApiError
                              (''Crashlytics API error ('' @ show_nat (status r) @ ''): '' @ errorBody)
                              (status r) (statusText r)), w2))
                   else if status r = 204 then (Inr None, w2)
                   else case body_json r of
                          None \<Rightarrow>
                            (Inl (Error ''Failed to parse JSON response from the Crashlytics API.''), w2)
                        | Some data \<Rightarrow> (Inr (Some data), w2))))"

definition getIssue :: "CrashlyticsClient \<Rightarrow> string \<Rightarrow> world \<Rightarrow> (exn + json option) \<times> world" where
  "getIssue this issueId w = request this ''GET'' (resourcePath this @ ''/issues/'' @ issueId) w"

section \<open>Notions used in the statements\<close>

text \<open>The requests sent to the server whose URLs start with \<open>base\<close>.\<close>

fun is_call_to :: "string \<Rightarrow> io_event \<Rightarrow> bool" where
  "is_call_to base (Fetch _ url) = prefix base url"
| "is_call_to base _ = False"

definition api_calls :: "string \<Rightarrow> world \<Rightarrow> io_event list" where
  "api_calls base w = filter (is_call_to base) (trace w)"

text \<open>The files written, in order.\<close>

fun is_write :: "io_event \<Rightarrow> bool" where
  "is_write (WriteFile _) = True"
| "is_write _ = False"

definition file_writes :: "world \<Rightarrow> io_event list" where
  "file_writes w = filter is_write (trace w)"

text \<open>What a call leaves untouched: everything but the cache, the clock and the trace.\<close>

definition same_surroundings :: "world \<Rightarrow> world \<Rightarrow> bool" where
  "same_surroundings w w' =
     (homedir w' = homedir w \<and> cwd w' = cwd w \<and> firebase_tools w' = firebase_tools w \<and>
      firebaserc w' = firebaserc w \<and> local_config w' = local_config w \<and>
      global_config w' = global_config w \<and> token_endpoint w' = token_endpoint w \<and>
      project_api w' = project_api w \<and> apps_api w' = apps_api w \<and>
      crashlytics_api w' = crashlytics_api w \<and> latency w' = latency w)"

text \<open>A file that is absent or holds a value of its interface.\<close>

fun readable :: "'a fnode \<Rightarrow> bool" where
  "readable Absent = True"
| "readable (Parsed _) = True"
| "readable _ = False"

text \<open>The default project of \<open>.firebaserc\<close>, if the file gives one.\<close>

fun default_project :: "string option fnode \<Rightarrow> string option" where
  "default_project (Parsed d) = d"
| "default_project _ = None"

text \<open>A key of a config record is absent, \<open>null\<close> or a string.\<close>

definition well_typed :: "FccConfig \<Rightarrow> string \<Rightarrow> bool" where
  "well_typed c key = (case c key of None \<Rightarrow> True | Some JNull \<Rightarrow> True | Some (JStr _) \<Rightarrow> True | _ \<Rightarrow> False)"


text \<open>A string, or a number that \<open>JSON.stringify\<close> writes as a number.\<close>

fun finite_value :: "jsval \<Rightarrow> bool" where
  "finite_value (Str _) = True"
| "finite_value (Num (Fin _)) = True"
| "finite_value (Num _) = False"

text \<open>
  The precedence chains in the words of the specification: the first candidate, in order,
  that yields a value.
\<close>

fun first_value :: "string option list \<Rightarrow> string option" where
  "first_value [] = None"
| "first_value (x # xs) = (if truthy x then x else first_value xs)"

text \<open>The candidates for the project id and for the app id, in the order of the specification.\<close>

definition project_candidates :: "string option \<Rightarrow> world \<Rightarrow> string option list" where
  "project_candidates projectIdOrFlag w =
     [projectIdOrFlag, default_project (firebaserc w),
      string_field (Some (content (local_config w))) ''project'']"

definition app_candidates :: "string option \<Rightarrow> world \<Rightarrow> string option list" where
  "app_candidates appIdOrFlag w =
     [appIdOrFlag, string_field (Some (content (local_config w))) ''app'']"

text \<open>
  The world in which \<open>resolveProject\<close> asks for a token: the one it was called in,
  after the file reads that the candidates required.
\<close>

definition project_reads :: "string option \<Rightarrow> world \<Rightarrow> world" where
  "project_reads projectIdOrFlag w =
     (if truthy projectIdOrFlag then w
      else let w1 = do_io (ReadFile (join [cwd w, ''.firebaserc''])) w
           in if truthy (default_project (firebaserc w)) then w1
              else do_io (ReadFile (getLocalConfigPath w)) w1)"

text \<open>The error of \<open>firebaseApiGet\<close> for a response whose status is not 2xx.\<close>

definition api_failure :: "'a response \<Rightarrow> exn" where
  "api_failure r =
     Error (if status r = 401 then
              ''Authentication failed. Your access token is invalid or expired. Try running `firebase login` again.''
            else if status r = 403 then
              ''Access denied. You do not have permission to access this Firebase project.''
            else if status r = 404 then
              ''Firebase project not found. Verify the project ID is correct. API responded: ''
                @ body_text r
            else ''Firebase API error ('' @ show_nat (status r) @ ''): '' @ body_text r)"

text \<open>The messages of the resolver's own errors, as the source spells them.\<close>

definition no_project_message :: string where
  "no_project_message = ''No project specified. Use --project <projectId>, `fcc set project <id>`, or run `fcc projects list` to see available projects.''"

definition no_app_message :: string where
  "no_app_message = ''Could not determine the Firebase app. Provide --app <appId>, ''
     @ ''or set it in .fcc.json, or provide --project so apps can be listed.''"

definition no_apps_found_message :: "string \<Rightarrow> string" where
  "no_apps_found_message p = ''No apps found in Firebase project \"'' @ p @ ''\". ''
     @ ''Register an app in the Firebase Console first.''"

text \<open>
  The last step of \<open>resolveProject\<close>: the id is exchanged for what the Firebase
  Management API answers.
\<close>

definition exchange :: "string \<Rightarrow> world \<Rightarrow> (exn + FirebaseProject) \<times> world" where
  "exchange pid w =
     (case firebaseApiGet project_api (''projects/'' @ pid) w of
        (Inl e, w3) \<Rightarrow> (Inl e, w3)
      | (Inr project, w3) \<Rightarrow> (Inr project, w3))"

section \<open>Concrete worlds for evaluation\<close>

text \<open>
  A fresh process of a logged-in user: empty cache, a refresh token on disk, a token
  endpoint that answers with a token valid for 3599 seconds, the other servers
  unreachable. The worlds after it change one or two of its fields.
\<close>

definition demo_token_body :: token_body where
  "demo_token_body = \<lparr>error = None, error_description = None,
     access_token = Some ''ya29.demo'', expires_in = 3599\<rparr>"

definition demo_world :: world where
  "demo_world = \<lparr>cachedAccessToken = None, tokenExpiresAt = 0, clock = 1700000000000,
     homedir = ''/home/dev'', cwd = ''/work/app'',
     firebase_tools = Parsed (Some ''1//refresh''),
     firebaserc = Parsed (Some ''proj-B''),
     local_config = Parsed [''project'' \<mapsto> JStr ''proj-C''],
     global_config = Absent,
     mkdir_error = (\<lambda>_. None), write_error = (\<lambda>_. None),
     token_endpoint = (\<lambda>_ _. Resolved \<lparr>status = 200, statusText = ''OK'', body_text = [],
        body_json = Some demo_token_body\<rparr>),
     project_api = (\<lambda>_. Rejected ''offline''),
     apps_api = (\<lambda>_. Rejected ''offline''),
     crashlytics_api = (\<lambda>_ _. Rejected ''offline''),
     latency = (\<lambda>_. 7), trace = []\<rparr>"

definition stale_corrupt_world :: world where
  "stale_corrupt_world = demo_world\<lparr>cachedAccessToken := Some ''ya29.old'',
     tokenExpiresAt := 1600000000000, firebase_tools := Corrupt\<rparr>"

definition merge_world :: world where
  "merge_world = demo_world\<lparr>
     global_config := Parsed [''defaultType'' \<mapsto> JStr ''fatal'', ''defaultLimit'' \<mapsto> JNum 20],
     local_config := Parsed [''defaultType'' \<mapsto> JStr ''anr'']\<rparr>"


definition demo_client :: CrashlyticsClient where
  "demo_client = \<lparr>client_projectNumber = ''1234567890'',
     client_appId = ''1:1234567890:android:abcdef''\<rparr>"

definition not_found_world :: world where
  "not_found_world = demo_world\<lparr>crashlytics_api := (\<lambda>_ _.
     Resolved \<lparr>status = 404, statusText = ''Not Found'',
       body_text = ''{\"error\":\"not found\"}'',
       body_json = Some (JObj [(''error'', JStr ''not found'')])\<rparr>)\<rparr>"

definition project_world :: world where
  "project_world = demo_world\<lparr>project_api := (\<lambda>url.
     Resolved \<lparr>status = 200, statusText = ''OK'', body_text = [],
       body_json = Some \<lparr>projectId = drop 49 url, projectNumber = ''1234567890'',
         displayName = ''Demo'', name = drop 40 url\<rparr>\<rparr>)\<rparr>"

definition demo_android_app :: RawApp where
  "demo_android_app = \<lparr>raw_appId = ''1:1234567890:android:abcdef'',
     raw_displayName = Some ''Shop'', raw_identifier = Some ''com.example.shop''\<rparr>"

definition apps_world :: "RawApp list \<Rightarrow> world" where
  "apps_world android = demo_world\<lparr>local_config := Absent, apps_api := (\<lambda>url.
     Resolved \<lparr>status = 200, statusText = ''OK'', body_text = [],
       body_json = Some (if url = ''https://firebase.googleapis.com/v1beta1/projects/1234567890/androidApps''
                         then Some android else None)\<rparr>)\<rparr>"

section \<open>Properties of the token cache\<close>

lemma truthy_iff: "truthy x \<longleftrightarrow> (\<exists>s. x = Some s \<and> s \<noteq> [])"
  by (cases x) simp_all

lemma trace_do_io: "trace (do_io ev w) = trace w @ [ev]"
  by (simp add: do_io_def)

lemma cache_do_io:
  "cachedAccessToken (do_io ev w) = cachedAccessToken w"
  "tokenExpiresAt (do_io ev w) = tokenExpiresAt w"
  by (simp_all add: do_io_def)

lemma readRefreshToken_cache:
  "cachedAccessToken (snd (readRefreshToken w)) = cachedAccessToken w \<and>
   tokenExpiresAt (snd (readRefreshToken w)) = tokenExpiresAt w"
  by (simp add: readRefreshToken_def Let_def cache_do_io split: fnode.splits)

lemma readRefreshToken_network:
  "network_calls (snd (readRefreshToken w)) = network_calls w"
  by (simp add: readRefreshToken_def Let_def network_calls_def trace_do_io split: fnode.splits)

lemma refreshAccessToken_failure:
  "fst (refreshAccessToken rt w) = Inl e \<Longrightarrow>
   cachedAccessToken (snd (refreshAccessToken rt w)) = cachedAccessToken w \<and>
   tokenExpiresAt (snd (refreshAccessToken rt w)) = tokenExpiresAt w"
  by (auto simp: refreshAccessToken_def Let_def cache_do_io split: fetch_result.splits option.splits if_splits)

lemma refreshAccessToken_success:
  "fst (refreshAccessToken rt w) = Inr tok \<Longrightarrow>
   cachedAccessToken (snd (refreshAccessToken rt w)) = Some tok \<and> tok \<noteq> []"
  by (auto simp: refreshAccessToken_def Let_def cache_do_io truthy_iff split: fetch_result.splits option.splits if_splits)

lemma getAccessToken_hit:
  "truthy (cachedAccessToken w) \<Longrightarrow> clock w < tokenExpiresAt w \<Longrightarrow>
   getAccessToken w = (Inr (the (cachedAccessToken w)), w)"
  by (simp add: getAccessToken_def)

lemma getAccessToken_miss_Inl:
  "\<not> (truthy (cachedAccessToken w) \<and> clock w < tokenExpiresAt w) \<Longrightarrow>
   readRefreshToken w = (Inl e, w1) \<Longrightarrow> getAccessToken w = (Inl e, w1)"
  by (auto simp: getAccessToken_def)

lemma getAccessToken_miss_Inr:
  "\<not> (truthy (cachedAccessToken w) \<and> clock w < tokenExpiresAt w) \<Longrightarrow>
   readRefreshToken w = (Inr rt, w1) \<Longrightarrow> getAccessToken w = refreshAccessToken rt w1"
  by (auto simp: getAccessToken_def)

lemma getAccessToken_success:
  assumes res: "fst (getAccessToken w) = Inr tok"
  shows "cachedAccessToken (snd (getAccessToken w)) = Some tok \<and> tok \<noteq> []"
proof (cases "truthy (cachedAccessToken w) \<and> clock w < tokenExpiresAt w")
  case True
  then have "getAccessToken w = (Inr (the (cachedAccessToken w)), w)"
    by (simp add: getAccessToken_hit)
  with res True show ?thesis by (auto simp: truthy_iff)
next
  case False
  obtain r w1 where rr: "readRefreshToken w = (r, w1)" by (cases "readRefreshToken w")
  show ?thesis
  proof (cases r)
    case (Inl e)
    with False rr have "getAccessToken w = (Inl e, w1)" by (simp add: getAccessToken_miss_Inl)
    with res show ?thesis by simp
  next
    case (Inr rt)
    with False rr have "getAccessToken w = refreshAccessToken rt w1"
      by (simp add: getAccessToken_miss_Inr)
    with res show ?thesis by (simp add: refreshAccessToken_success)
  qed
qed

lemma getAccessToken_failure:
  assumes res: "fst (getAccessToken w) = Inl e"
  shows "cachedAccessToken (snd (getAccessToken w)) = cachedAccessToken w \<and>
         tokenExpiresAt (snd (getAccessToken w)) = tokenExpiresAt w"
proof (cases "truthy (cachedAccessToken w) \<and> clock w < tokenExpiresAt w")
  case True
  then show ?thesis by (simp add: getAccessToken_hit)
next
  case False
  obtain r w1 where rr: "readRefreshToken w = (r, w1)" by (cases "readRefreshToken w")
  have keep: "cachedAccessToken w1 = cachedAccessToken w \<and> tokenExpiresAt w1 = tokenExpiresAt w"
    using readRefreshToken_cache [of w] rr by simp
  show ?thesis
  proof (cases r)
    case (Inl e')
    with False rr have "getAccessToken w = (Inl e', w1)" by (simp add: getAccessToken_miss_Inl)
    with keep show ?thesis by simp
  next
    case (Inr rt)
    with False rr have eq: "getAccessToken w = refreshAccessToken rt w1"
      by (simp add: getAccessToken_miss_Inr)
    with res have "fst (refreshAccessToken rt w1) = Inl e" by simp
    from refreshAccessToken_failure [OF this] eq keep show ?thesis by simp
  qed
qed

lemma demo_first:
  "getAccessToken demo_world =
     (Inr ''ya29.demo'',
      demo_world\<lparr>trace := [ReadFile ''/home/dev/.config/configstore/firebase-tools.json'',
                            Fetch ''POST'' TOKEN_ENDPOINT],
                 clock := 1700000000014,
                 cachedAccessToken := Some ''ya29.demo'',
                 tokenExpiresAt := 1700003539014\<rparr>)"
  by (simp add: getAccessToken_def readRefreshToken_def refreshAccessToken_def
      getFirebaseConfigPath_def demo_world_def demo_token_body_def do_io_def ok_def Let_def)

text \<open>
  C2. Once a call to \<open>getAccessToken\<close> has returned a token, any later call made
  while the cache still holds what that call left and the clock is before the stored
  expiry returns the identical token and leaves the world untouched: nothing is appended
  to the trace, so there is no network call and no file operation. Files, servers and
  clock of the later world are otherwise arbitrary.
\<close>

theorem getAccessToken_cached_within_ttl:
  assumes first: "fst (getAccessToken w0) = Inr tok"
      and same: "cachedAccessToken w = cachedAccessToken (snd (getAccessToken w0))"
                "tokenExpiresAt w = tokenExpiresAt (snd (getAccessToken w0))"
      and fresh: "clock w < tokenExpiresAt w"
  shows "getAccessToken w = (Inr tok, w) \<and> trace (snd (getAccessToken w)) = trace w"
proof -
  from getAccessToken_success [OF first] same
  have c: "cachedAccessToken w = Some tok" and n: "tok \<noteq> []" by simp_all
  then have "truthy (cachedAccessToken w)" by simp
  from getAccessToken_hit [OF this fresh] c show ?thesis by simp
qed

theorem getAccessToken_cached_within_ttl_witness:
  "fst (getAccessToken demo_world) = Inr ''ya29.demo'' \<and>
   getAccessToken (snd (getAccessToken demo_world)\<lparr>clock := 1700000001000\<rparr>) =
     (Inr ''ya29.demo'', snd (getAccessToken demo_world)\<lparr>clock := 1700000001000\<rparr>)"
  using getAccessToken_cached_within_ttl
    [of demo_world "''ya29.demo''" "snd (getAccessToken demo_world)\<lparr>clock := 1700000001000\<rparr>"]
  by (simp add: demo_first)

lemma network_do_io_fetch:
  "network_calls (do_io (Fetch m u) w) = network_calls w @ [Fetch m u]"
  by (simp add: network_calls_def trace_do_io)

lemma refreshAccessToken_network:
  "network_calls (snd (refreshAccessToken rt w)) = network_calls w @ [Fetch ''POST'' TOKEN_ENDPOINT]"
  by (simp add: refreshAccessToken_def Let_def network_calls_def trace_do_io
      split: fetch_result.splits option.splits)

lemma readRefreshToken_Parsed:
  "firebase_tools w = Parsed (Some rt) \<Longrightarrow> rt \<noteq> [] \<Longrightarrow>
   readRefreshToken w = (Inr rt, do_io (ReadFile (getFirebaseConfigPath w)) w)"
  by (simp add: readRefreshToken_def Let_def)

lemma readRefreshToken_Corrupt:
  "firebase_tools w = Corrupt \<Longrightarrow>
   readRefreshToken w =
     (Inl (Error (''Failed to parse Firebase CLI config at '' @ getFirebaseConfigPath w
        @ ''. The file may be corrupted. Try running `firebase login` again.'')),
      do_io (ReadFile (getFirebaseConfigPath w)) w)"
  by (simp add: readRefreshToken_def Let_def)

lemma refreshAccessToken_store:
  assumes "token_endpoint w (clock w) rt = Resolved r" "ok r" "body_json r = Some b"
    "truthy (access_token b)"
  shows "fst (refreshAccessToken rt w) = Inr (the (access_token b)) \<and>
         cachedAccessToken (snd (refreshAccessToken rt w)) = access_token b \<and>
         tokenExpiresAt (snd (refreshAccessToken rt w)) =
           clock (snd (refreshAccessToken rt w)) + (expires_in b - 60) * 1000"
  using assms by (simp add: refreshAccessToken_def Let_def)

text \<open>
  C6. A call that misses the cache, reads a refresh token and gets a 2xx token response
  with an access token stores, as expiry, the time at which it stores (the clock of the
  world it returns) plus the server's \<open>expires_in\<close> seconds minus 60 seconds, in
  milliseconds. In any later world that holds this cache and whose clock has reached the
  stored expiry, the next call (the refresh credential being readable) sends exactly one
  request, the POST to the token endpoint, whatever the server answers.
\<close>

theorem getAccessToken_expiry_and_refresh:
  assumes miss: "\<not> (truthy (cachedAccessToken w) \<and> clock w < tokenExpiresAt w)"
      and cred: "firebase_tools w = Parsed (Some rt)" "rt \<noteq> []"
      and reply: "token_endpoint w (clock (do_io (ReadFile (getFirebaseConfigPath w)) w)) rt = Resolved r"
                 "ok r" "body_json r = Some b" "truthy (access_token b)"
      and later: "cachedAccessToken w2 = cachedAccessToken (snd (getAccessToken w))"
                 "tokenExpiresAt w2 = tokenExpiresAt (snd (getAccessToken w))"
                 "tokenExpiresAt w2 \<le> clock w2"
      and cred2: "firebase_tools w2 = Parsed (Some rt2)" "rt2 \<noteq> []"
  shows "fst (getAccessToken w) = Inr (the (access_token b)) \<and>
         tokenExpiresAt (snd (getAccessToken w)) =
           clock (snd (getAccessToken w)) + (expires_in b - 60) * 1000 \<and>
         network_calls (snd (getAccessToken w2)) =
           network_calls w2 @ [Fetch ''POST'' TOKEN_ENDPOINT]"
proof -
  let ?w1 = "do_io (ReadFile (getFirebaseConfigPath w)) w"
  have g: "getAccessToken w = refreshAccessToken rt ?w1"
    using miss readRefreshToken_Parsed [OF cred] by (rule getAccessToken_miss_Inr)
  have "token_endpoint ?w1 (clock ?w1) rt = Resolved r"
    using reply(1) by (simp add: do_io_def)
  from refreshAccessToken_store [OF this reply(2-4)] g
  have a: "fst (getAccessToken w) = Inr (the (access_token b))"
    and b: "tokenExpiresAt (snd (getAccessToken w)) =
           clock (snd (getAccessToken w)) + (expires_in b - 60) * 1000" by simp_all
  let ?w3 = "do_io (ReadFile (getFirebaseConfigPath w2)) w2"
  have "\<not> (truthy (cachedAccessToken w2) \<and> clock w2 < tokenExpiresAt w2)"
    using later(3) by simp
  then have "getAccessToken w2 = refreshAccessToken rt2 ?w3"
    using readRefreshToken_Parsed [OF cred2] by (rule getAccessToken_miss_Inr)
  then have "network_calls (snd (getAccessToken w2)) =
      network_calls ?w3 @ [Fetch ''POST'' TOKEN_ENDPOINT]"
    by (simp add: refreshAccessToken_network)
  moreover have "network_calls ?w3 = network_calls w2"
    by (simp add: network_calls_def trace_do_io)
  ultimately show ?thesis using a b by simp
qed

theorem getAccessToken_expiry_and_refresh_witness:
  "fst (getAccessToken demo_world) = Inr ''ya29.demo'' \<and>
   tokenExpiresAt (snd (getAccessToken demo_world)) =
     clock (snd (getAccessToken demo_world)) + (3599 - 60) * 1000 \<and>
   network_calls (snd (getAccessToken (snd (getAccessToken demo_world)\<lparr>clock := 1700003539014\<rparr>))) =
     [Fetch ''POST'' TOKEN_ENDPOINT, Fetch ''POST'' TOKEN_ENDPOINT]"
  using getAccessToken_expiry_and_refresh
    [of demo_world "''1//refresh''"
        "\<lparr>status = 200, statusText = ''OK'', body_text = [], body_json = Some demo_token_body\<rparr>"
        demo_token_body
        "snd (getAccessToken demo_world)\<lparr>clock := 1700003539014\<rparr>" "''1//refresh''"]
  by (simp add: demo_first ok_def network_calls_def) (simp add: demo_world_def demo_token_body_def)

text \<open>
  C8. When \<open>firebase-tools.json\<close> exists but is not valid JSON and no valid token is
  cached, \<open>getAccessToken\<close> fails with the parse-failure error, whose message names
  the file's exact path, and no network call has been made.
\<close>

theorem getAccessToken_corrupt_config:
  assumes corrupt: "firebase_tools w = Corrupt"
      and miss: "\<not> (truthy (cachedAccessToken w) \<and> clock w < tokenExpiresAt w)"
  shows "fst (getAccessToken w) =
           Inl (Error (''Failed to parse Firebase CLI config at '' @ getFirebaseConfigPath w
             @ ''. The file may be corrupted. Try running `firebase login` again.'')) \<and>
         js_includes (message (projl (fst (getAccessToken w)))) (getFirebaseConfigPath w) \<and>
         network_calls (snd (getAccessToken w)) = network_calls w"
proof -
  have "getAccessToken w =
     (Inl (Error (''Failed to parse Firebase CLI config at '' @ getFirebaseConfigPath w
        @ ''. The file may be corrupted. Try running `firebase login` again.'')),
      do_io (ReadFile (getFirebaseConfigPath w)) w)"
    (is "_ = (Inl (Error ?m), ?w1)")
    using miss readRefreshToken_Corrupt [OF corrupt] by (rule getAccessToken_miss_Inl)
  then have r: "fst (getAccessToken w) = Inl (Error ?m)" and s: "snd (getAccessToken w) = ?w1"
    by (simp_all only: fst_conv snd_conv)
  have "sublist (getFirebaseConfigPath w) ?m" by (rule sublist_appendI)
  then have i: "js_includes (message (projl (fst (getAccessToken w)))) (getFirebaseConfigPath w)"
    by (simp only: r sum.sel message.simps js_includes_def)
  have n: "network_calls (snd (getAccessToken w)) = network_calls w"
    by (simp only: s) (simp add: network_calls_def trace_do_io)
  from r i n show ?thesis by (intro conjI)
qed

theorem getAccessToken_corrupt_config_witness:
  "fst (getAccessToken (demo_world\<lparr>firebase_tools := Corrupt\<rparr>)) =
     Inl (Error ''Failed to parse Firebase CLI config at /home/dev/.config/configstore/firebase-tools.json. The file may be corrupted. Try running `firebase login` again.'') \<and>
   network_calls (snd (getAccessToken (demo_world\<lparr>firebase_tools := Corrupt\<rparr>))) = []"
  using getAccessToken_corrupt_config [of "demo_world\<lparr>firebase_tools := Corrupt\<rparr>"]
  by (simp add: demo_world_def getFirebaseConfigPath_def network_calls_def)


lemma refreshAccessToken_changes:
  assumes "cachedAccessToken (snd (refreshAccessToken rt w)) \<noteq> cachedAccessToken w \<or>
           tokenExpiresAt (snd (refreshAccessToken rt w)) \<noteq> tokenExpiresAt w"
  shows "\<exists>r b. token_endpoint w (clock w) rt = Resolved r \<and> ok r \<and> body_json r = Some b \<and>
           truthy (access_token b) \<and> fst (refreshAccessToken rt w) = Inr (the (access_token b))"
proof (cases "fst (refreshAccessToken rt w)")
  case (Inl e)
  from refreshAccessToken_failure [OF this] assms show ?thesis by simp
next
  case (Inr tok)
  then show ?thesis
    by (auto simp: refreshAccessToken_def Let_def split: fetch_result.splits option.splits if_splits)
qed

lemma readRefreshToken_Inr:
  "readRefreshToken w = (Inr rt, w1) \<Longrightarrow>
   firebase_tools w = Parsed (Some rt) \<and> rt \<noteq> [] \<and> w1 = do_io (ReadFile (getFirebaseConfigPath w)) w"
  by (auto simp: readRefreshToken_def Let_def truthy_iff split: fnode.splits if_splits)

lemma refreshAccessToken_fails:
  assumes "(\<exists>m. token_endpoint w (clock w) rt = Rejected m) \<or>
           (\<exists>r. token_endpoint w (clock w) rt = Resolved r \<and>
              (\<not> ok r \<or> body_json r = None \<or>
               (\<exists>b. body_json r = Some b \<and> \<not> truthy (access_token b))))"
  shows "isl (fst (refreshAccessToken rt w))"
  using assms by (auto simp: refreshAccessToken_def Let_def)

lemma readRefreshToken_fails:
  assumes "firebase_tools w = Absent \<or> (\<exists>m. firebase_tools w = Unreadable m) \<or>
           firebase_tools w = Corrupt \<or> firebase_tools w = Parsed None \<or>
           firebase_tools w = Parsed (Some [])"
  shows "isl (fst (readRefreshToken w))"
  using assms by (auto simp: readRefreshToken_def Let_def)

lemma getAccessToken_failure_paths:
  assumes miss: "\<not> (truthy (cachedAccessToken w) \<and> clock w < tokenExpiresAt w)"
      and path: "firebase_tools w = Absent \<or> (\<exists>m. firebase_tools w = Unreadable m) \<or>
                 firebase_tools w = Corrupt \<or> firebase_tools w = Parsed None \<or>
                 firebase_tools w = Parsed (Some []) \<or>
                 (\<exists>rt. firebase_tools w = Parsed (Some rt) \<and> rt \<noteq> [] \<and>
                   ((\<exists>m. token_endpoint w (clock (do_io (ReadFile (getFirebaseConfigPath w)) w)) rt
                          = Rejected m) \<or>
                    (\<exists>r. token_endpoint w (clock (do_io (ReadFile (getFirebaseConfigPath w)) w)) rt
                          = Resolved r \<and>
                       (\<not> ok r \<or> body_json r = None \<or>
                        (\<exists>b. body_json r = Some b \<and> \<not> truthy (access_token b))))))"
  shows "isl (fst (getAccessToken w))"
proof -
  let ?w1 = "do_io (ReadFile (getFirebaseConfigPath w)) w"
  have te: "token_endpoint ?w1 = token_endpoint w" by (simp add: do_io_def)
  from path consider
      (unreadable) "firebase_tools w = Absent \<or> (\<exists>m. firebase_tools w = Unreadable m) \<or>
           firebase_tools w = Corrupt \<or> firebase_tools w = Parsed None \<or>
           firebase_tools w = Parsed (Some [])"
    | (refused) rt where "firebase_tools w = Parsed (Some rt)" "rt \<noteq> []"
        "(\<exists>m. token_endpoint ?w1 (clock ?w1) rt = Rejected m) \<or>
         (\<exists>r. token_endpoint ?w1 (clock ?w1) rt = Resolved r \<and>
            (\<not> ok r \<or> body_json r = None \<or>
             (\<exists>b. body_json r = Some b \<and> \<not> truthy (access_token b))))"
    unfolding te by blast
  then show ?thesis
  proof cases
    case unreadable
    from readRefreshToken_fails [OF this] obtain e w1 where "readRefreshToken w = (Inl e, w1)"
      by (cases "readRefreshToken w"; cases "fst (readRefreshToken w)") auto
    with miss have "getAccessToken w = (Inl e, w1)" by (rule getAccessToken_miss_Inl)
    then show ?thesis by simp
  next
    case refused
    from miss readRefreshToken_Parsed [OF refused(1,2)]
    have "getAccessToken w = refreshAccessToken rt ?w1" by (rule getAccessToken_miss_Inr)
    with refreshAccessToken_fails [OF refused(3)] show ?thesis by simp
  qed
qed

text \<open>
  C10. Whenever \<open>getAccessToken\<close> fails, \<open>cachedAccessToken\<close> and
  \<open>tokenExpiresAt\<close> are what they were before the call; and if either of them differs
  after a call, the call read a refresh token, got a 2xx token response whose body has an
  access token, and returned that token. Lemma \<open>getAccessToken_failure_paths\<close> shows
  that each of the listed conditions is such a failure.
\<close>

theorem getAccessToken_failure_keeps_cache:
  "(isl (fst (getAccessToken w)) \<longrightarrow>
      cachedAccessToken (snd (getAccessToken w)) = cachedAccessToken w \<and>
      tokenExpiresAt (snd (getAccessToken w)) = tokenExpiresAt w) \<and>
   (cachedAccessToken (snd (getAccessToken w)) \<noteq> cachedAccessToken w \<or>
    tokenExpiresAt (snd (getAccessToken w)) \<noteq> tokenExpiresAt w \<longrightarrow>
      (\<exists>rt r b. firebase_tools w = Parsed (Some rt) \<and>
         token_endpoint w (clock (do_io (ReadFile (getFirebaseConfigPath w)) w)) rt = Resolved r \<and>
         ok r \<and> body_json r = Some b \<and> truthy (access_token b) \<and>
         fst (getAccessToken w) = Inr (the (access_token b))))"
proof (rule conjI; rule impI)
  assume "isl (fst (getAccessToken w))"
  then obtain e where "fst (getAccessToken w) = Inl e" by (cases "fst (getAccessToken w)") simp_all
  then show "cachedAccessToken (snd (getAccessToken w)) = cachedAccessToken w \<and>
      tokenExpiresAt (snd (getAccessToken w)) = tokenExpiresAt w"
    by (rule getAccessToken_failure)
next
  assume ch: "cachedAccessToken (snd (getAccessToken w)) \<noteq> cachedAccessToken w \<or>
    tokenExpiresAt (snd (getAccessToken w)) \<noteq> tokenExpiresAt w"
  have miss: "\<not> (truthy (cachedAccessToken w) \<and> clock w < tokenExpiresAt w)"
  proof
    assume "truthy (cachedAccessToken w) \<and> clock w < tokenExpiresAt w"
    then have "getAccessToken w = (Inr (the (cachedAccessToken w)), w)"
      by (simp add: getAccessToken_hit)
    with ch show False by simp
  qed
  obtain r0 w1 where rr: "readRefreshToken w = (r0, w1)" by (cases "readRefreshToken w")
  have keep: "cachedAccessToken w1 = cachedAccessToken w \<and> tokenExpiresAt w1 = tokenExpiresAt w"
    using readRefreshToken_cache [of w] rr by simp
  show "\<exists>rt r b. firebase_tools w = Parsed (Some rt) \<and>
         token_endpoint w (clock (do_io (ReadFile (getFirebaseConfigPath w)) w)) rt = Resolved r \<and>
         ok r \<and> body_json r = Some b \<and> truthy (access_token b) \<and>
         fst (getAccessToken w) = Inr (the (access_token b))"
  proof (cases r0)
    case (Inl e)
    with miss rr have "getAccessToken w = (Inl e, w1)" by (simp add: getAccessToken_miss_Inl)
    with ch keep show ?thesis by simp
  next
    case (Inr rt)
    with miss rr have g: "getAccessToken w = refreshAccessToken rt w1"
      by (simp add: getAccessToken_miss_Inr)
    from rr Inr have f: "firebase_tools w = Parsed (Some rt)"
      and w1: "w1 = do_io (ReadFile (getFirebaseConfigPath w)) w"
      using readRefreshToken_Inr [of w rt w1] by simp_all
    from ch g keep
    have "cachedAccessToken (snd (refreshAccessToken rt w1)) \<noteq> cachedAccessToken w1 \<or>
          tokenExpiresAt (snd (refreshAccessToken rt w1)) \<noteq> tokenExpiresAt w1" by simp
    from refreshAccessToken_changes [OF this] obtain r b where
      "token_endpoint w1 (clock w1) rt = Resolved r" "ok r" "body_json r = Some b"
      "truthy (access_token b)" "fst (refreshAccessToken rt w1) = Inr (the (access_token b))"
      by blast
    moreover have "token_endpoint w1 = token_endpoint w" by (simp add: w1 do_io_def)
    ultimately show ?thesis using f g w1 by auto
  qed
qed

theorem getAccessToken_failure_keeps_cache_witness:
  "isl (fst (getAccessToken stale_corrupt_world)) \<and>
   cachedAccessToken (snd (getAccessToken stale_corrupt_world)) = Some ''ya29.old'' \<and>
   tokenExpiresAt (snd (getAccessToken stale_corrupt_world)) = 1600000000000 \<and>
   cachedAccessToken (snd (getAccessToken demo_world)) \<noteq> cachedAccessToken demo_world \<and>
   fst (getAccessToken demo_world) = Inr ''ya29.demo''"
proof -
  have f: "isl (fst (getAccessToken stale_corrupt_world))"
    by (simp add: getAccessToken_def readRefreshToken_def stale_corrupt_world_def demo_world_def Let_def)
  have c: "cachedAccessToken (snd (getAccessToken demo_world)) \<noteq> cachedAccessToken demo_world"
    by (simp add: demo_first) (simp add: demo_world_def)
  from getAccessToken_failure_keeps_cache [of stale_corrupt_world] f
  have "cachedAccessToken (snd (getAccessToken stale_corrupt_world)) = Some ''ya29.old'' \<and>
        tokenExpiresAt (snd (getAccessToken stale_corrupt_world)) = 1600000000000"
    by (simp add: stale_corrupt_world_def)
  moreover have "fst (getAccessToken demo_world) = Inr ''ya29.demo''"
    by (simp add: demo_first)
  ultimately show ?thesis using f c by simp
qed

section \<open>Properties of the config store\<close>

lemma files_do_io:
  "local_config (do_io ev w) = local_config w"
  "global_config (do_io ev w) = global_config w"
  "write_error (do_io ev w) = write_error w"
  "homedir (do_io ev w) = homedir w"
  "cwd (do_io ev w) = cwd w"
  by (simp_all add: do_io_def)

lemma paths_do_io:
  "getLocalConfigPath (do_io ev w) = getLocalConfigPath w"
  "getGlobalConfigPath (do_io ev w) = getGlobalConfigPath w"
  by (simp_all add: getLocalConfigPath_def getGlobalConfigPath_def files_do_io)

lemma readConfig_ok:
  assumes "local_config w = Absent \<or> (\<exists>c. local_config w = Parsed c)"
  shows "\<exists>r. readConfig w = (Inr r, do_io (ReadFile (getLocalConfigPath w)) w) \<and>
             or_empty r = content (local_config w)"
  using assms by (auto simp: readConfig_def Let_def)

lemma readGlobalConfig_ok:
  assumes "global_config w = Absent \<or> (\<exists>c. global_config w = Parsed c)"
  shows "\<exists>r. readGlobalConfig w = (Inr r, do_io (ReadFile (getGlobalConfigPath w)) w) \<and>
             or_empty r = content (global_config w)"
  using assms by (auto simp: readGlobalConfig_def Let_def)

text \<open>
  C5. When both config files are absent or hold an object, \<open>getMergedConfig\<close>
  returns the shallow union of the global and the local record: its keys are the keys of
  either, a key of the local record has the local value (also when the global record has
  it too), and any other key has the global value.
\<close>

theorem getMergedConfig_union:
  assumes g: "global_config w = Absent \<or> (\<exists>c. global_config w = Parsed c)"
      and l: "local_config w = Absent \<or> (\<exists>c. local_config w = Parsed c)"
  shows "\<exists>merged. fst (getMergedConfig w) = Inr merged \<and>
           merged = content (global_config w) ++ content (local_config w) \<and>
           dom merged = dom (content (global_config w)) \<union> dom (content (local_config w)) \<and>
           (\<forall>k. k \<in> dom (content (local_config w)) \<longrightarrow> merged k = content (local_config w) k) \<and>
           (\<forall>k. k \<notin> dom (content (local_config w)) \<longrightarrow> merged k = content (global_config w) k)"
proof -
  let ?w1 = "do_io (ReadFile (getGlobalConfigPath w)) w"
  have l1: "local_config ?w1 = Absent \<or> (\<exists>c. local_config ?w1 = Parsed c)"
    using l by (simp add: files_do_io)
  from readGlobalConfig_ok [OF g] obtain rg where
    rg: "readGlobalConfig w = (Inr rg, ?w1)" "or_empty rg = content (global_config w)" by blast
  from readConfig_ok [OF l1] obtain rl where
    rl: "readConfig ?w1 = (Inr rl, do_io (ReadFile (getLocalConfigPath ?w1)) ?w1)"
        "or_empty rl = content (local_config w)" by (auto simp: files_do_io)
  have m: "fst (getMergedConfig w) = Inr (content (global_config w) ++ content (local_config w))"
    by (simp add: getMergedConfig_def rg rl)
  have d: "dom (content (global_config w) ++ content (local_config w)) =
        dom (content (global_config w)) \<union> dom (content (local_config w))"
    by auto
  have a: "\<forall>k. k \<in> dom (content (local_config w)) \<longrightarrow>
        (content (global_config w) ++ content (local_config w)) k = content (local_config w) k"
    by (simp add: map_add_dom_app_simps)
  have b: "\<forall>k. k \<notin> dom (content (local_config w)) \<longrightarrow>
        (content (global_config w) ++ content (local_config w)) k = content (global_config w) k"
    by (simp add: map_add_dom_app_simps)
  from m d a b show ?thesis by blast
qed

lemma merge_world_files:
  "global_config merge_world = Parsed [''defaultType'' \<mapsto> JStr ''fatal'', ''defaultLimit'' \<mapsto> JNum 20]"
  "local_config merge_world = Parsed [''defaultType'' \<mapsto> JStr ''anr'']"
  by (simp_all add: merge_world_def demo_world_def)

theorem getMergedConfig_union_witness:
  "\<exists>merged. fst (getMergedConfig merge_world) = Inr merged \<and>
     merged ''defaultType'' = Some (JStr ''anr'') \<and>
     merged ''defaultLimit'' = Some (JNum 20) \<and> merged ''app'' = None"
proof -
  from getMergedConfig_union [of merge_world] obtain merged where
    "fst (getMergedConfig merge_world) = Inr merged"
    "merged = content (global_config merge_world) ++ content (local_config merge_world)"
    unfolding merge_world_files by blast
  then show ?thesis by (simp add: merge_world_files)
qed

lemma readConfig_cases:
  obtains (fail) e where "readConfig w = (Inl e, do_io (ReadFile (getLocalConfigPath w)) w)"
  | (ok) r where "readConfig w = (Inr r, do_io (ReadFile (getLocalConfigPath w)) w)"
      "or_empty r = content (local_config w)"
  by (cases "local_config w") (auto simp: readConfig_def Let_def)


lemma writeConfig_cases:
  obtains (fail) e w' where "writeConfig key v w = (Inl e, w')"
      "local_config w' = local_config w" "global_config w' = global_config w"
      "file_writes w' = file_writes w \<or> file_writes w' = file_writes w @ [WriteFile (getLocalConfigPath w)]"
  | (ok) w' where "writeConfig key v w = (Inr (), w')"
      "local_config w' = Parsed (stringify (set_property (content (local_config w)) key (to_json v)))"
      "global_config w' = global_config w"
      "file_writes w' = file_writes w @ [WriteFile (getLocalConfigPath w)]"
proof (cases w rule: readConfig_cases)
  case (fail e)
  then have "writeConfig key v w = (Inl e, do_io (ReadFile (getLocalConfigPath w)) w)"
    by (simp add: writeConfig_def Let_def)
  then show ?thesis
    by (rule that(1)) (simp_all add: files_do_io file_writes_def trace_do_io)
next
  case (ok r)
  show ?thesis
  proof (cases "write_error w (getLocalConfigPath w)")
    case None
    with ok have "writeConfig key v w =
        (Inr (), (do_io (WriteFile (getLocalConfigPath w)) (do_io (ReadFile (getLocalConfigPath w)) w))
           \<lparr>local_config := Parsed (stringify (set_property (content (local_config w)) key (to_json v)))\<rparr>)"
      by (simp add: writeConfig_def Let_def)
    then show ?thesis
      by (rule that(2)) (simp_all add: files_do_io file_writes_def trace_do_io)
  next
    case (Some m)
    with ok have "writeConfig key v w =
        (Inl (Error m), do_io (WriteFile (getLocalConfigPath w)) (do_io (ReadFile (getLocalConfigPath w)) w))"
      by (simp add: writeConfig_def Let_def)
    then show ?thesis
      by (rule that(1)) (simp_all add: files_do_io file_writes_def trace_do_io)
  qed
qed



lemma to_double_cases:
  "to_double r = PosInf \<or> to_double r = NegInf \<or> to_double r = Fin r"
  by (simp add: to_double_def)

lemma written_back_to_double:
  "written_back (to_json (Num (to_double r))) = to_json (Num (to_double r))"
  using to_double_cases [of r] by auto

lemma written_back_Number:
  "written_back (to_json (Num (js_Number s))) = to_json (Num (js_Number s))"
proof -
  have zero: "written_back (to_json (Num (Fin 0))) = to_json (Num (Fin 0))"
    by (simp add: to_double_def)
  have nan: "written_back (to_json (Num NaN)) = to_json (Num NaN)" by simp
  have dec: "written_back (to_json (Num (str_decimal t))) = to_json (Num (str_decimal t))" for t
    by (simp add: str_decimal_def Let_def written_back_to_double split: option.splits)
  have non: "non_decimal t = Some n \<Longrightarrow> written_back (to_json (Num n)) = to_json (Num n)"
    for t n
    by (auto simp: non_decimal_def Let_def written_back_to_double
        split: list.splits if_splits option.splits)
  show ?thesis
    using zero dec non by (auto simp: js_Number_def Let_def split: option.splits)
qed

lemma written_back_coerced:
  "coerceConfigValue key s = Inr v \<Longrightarrow> written_back (to_json v) = to_json v"
  using written_back_Number [of s]
  by (auto simp: coerceConfigValue_def Let_def split: if_splits)


lemma stringify_key:
  "written_back j = j \<Longrightarrow> key \<noteq> ''__proto__'' \<or> m key \<noteq> None \<Longrightarrow>
   stringify (set_property m key j) key = Some j"
  by (auto simp: stringify_def set_property_def)

lemma writeConfig_frame:
  "global_config (snd (writeConfig key v w)) = global_config w \<and>
   (fst (writeConfig key v w) = Inr () \<longrightarrow>
      local_config (snd (writeConfig key v w)) =
        Parsed (stringify (set_property (content (local_config w)) key (to_json v)))) \<and>
   (fst (writeConfig key v w) \<noteq> Inr () \<longrightarrow>
      local_config (snd (writeConfig key v w)) = local_config w) \<and>
   (\<exists>ws. file_writes (snd (writeConfig key v w)) = file_writes w @ ws \<and>
      set ws \<subseteq> {WriteFile (getLocalConfigPath w)})"
  by (cases key v w rule: writeConfig_cases) auto












lemma Number_Infinity: "js_Number ''Infinity'' = PosInf"
  by code_simp

lemma Number_50: "js_Number ''50'' = Fin 50"
  by code_simp

lemma Number_empty: "js_Number [] = Fin 0"
  by code_simp

lemma Number_abc: "js_Number ''abc'' = NaN"
  by code_simp

lemma defaultLimit_number: "KNOWN_CONFIG_KEYS ''defaultLimit'' = Some number_type"
  by (simp add: KNOWN_CONFIG_KEYS_def)

lemma coerce_Infinity: "coerceConfigValue ''defaultLimit'' ''Infinity'' = Inr (Num PosInf)"
  by (simp add: coerceConfigValue_def defaultLimit_number Number_Infinity isNaN_def)

lemma coerce_50: "coerceConfigValue ''defaultLimit'' ''50'' = Inr (Num (Fin 50))"
  by (simp add: coerceConfigValue_def defaultLimit_number Number_50 isNaN_def)

lemma coerce_abc:
  "coerceConfigValue ''defaultLimit'' ''abc'' =
     Inl (Error ''Value for \"defaultLimit\" must be a number, got \"abc\".'')"
  by (simp add: coerceConfigValue_def defaultLimit_number Number_abc isNaN_def)

lemma coerce_empty: "coerceConfigValue ''defaultLimit'' [] = Inr (Num (Fin 0))"
  by (simp add: coerceConfigValue_def defaultLimit_number Number_empty isNaN_def)

lemma demo_world_local:
  "local_config demo_world = Parsed [''project'' \<mapsto> JStr ''proj-C'']"
  "write_error demo_world = (\<lambda>_. None)"
  by (simp_all add: demo_world_def)

lemma writeConfig_demo:
  "fst (writeConfig key v demo_world) = Inr () \<and>
   local_config (snd (writeConfig key v demo_world)) =
     Parsed (stringify (set_property [''project'' \<mapsto> JStr ''proj-C''] key (to_json v)))"
proof (cases key v demo_world rule: writeConfig_cases)
  case (fail e w')
  then show ?thesis
    by (simp add: writeConfig_def readConfig_def Let_def demo_world_local)
next
  case (ok w')
  then show ?thesis by (simp add: demo_world_local)
qed

lemma local_value_Parsed: "local_config w = Parsed c \<Longrightarrow> local_value key w = Inr (c key)"
  by (simp add: local_value_def readConfig_def Let_def)

text \<open>
  C4, at the input \<open>config set defaultLimit Infinity\<close>: the coercion succeeds with the
  number \<open>Infinity\<close>, the write succeeds, and reading the local scope then gives
  \<open>null\<close> under \<open>defaultLimit\<close>, which is not the coerced value. The empty string, which is not
  numeric, is coerced to 0 instead of being rejected.
\<close>

theorem config_set_Infinity_reads_null:
  "coerceConfigValue ''defaultLimit'' ''Infinity'' = Inr (Num PosInf) \<and>
   fst (config_set ''defaultLimit'' ''Infinity'' demo_world) = Inr () \<and>
   local_value ''defaultLimit'' (snd (config_set ''defaultLimit'' ''Infinity'' demo_world))
     = Inr (Some JNull) \<and>
   \<not> strict_equal (Num PosInf) JNull \<and>
   coerceConfigValue ''defaultLimit'' [] = Inr (Num (Fin 0))"
proof -
  have c: "config_set ''defaultLimit'' ''Infinity'' demo_world =
      writeConfig ''defaultLimit'' (Num PosInf) demo_world"
    by (simp add: config_set_def coerce_Infinity)
  from writeConfig_demo [of "''defaultLimit''" "Num PosInf"]
  have w: "fst (writeConfig ''defaultLimit'' (Num PosInf) demo_world) = Inr ()"
    and f: "local_config (snd (writeConfig ''defaultLimit'' (Num PosInf) demo_world)) =
      Parsed (stringify (set_property [''project'' \<mapsto> JStr ''proj-C''] ''defaultLimit'' JNull))"
    by simp_all
  have "local_value ''defaultLimit'' (snd (writeConfig ''defaultLimit'' (Num PosInf) demo_world))
      = Inr (Some JNull)"
    unfolding local_value_Parsed [OF f] by (simp add: set_property_def stringify_def)
  with c w show ?thesis by (simp add: coerce_Infinity coerce_empty)
qed

lemma config_set_50_reads_50:
  "fst (config_set ''defaultLimit'' ''50'' demo_world) = Inr () \<and>
   content (local_config (snd (config_set ''defaultLimit'' ''50'' demo_world)))
     ''defaultLimit'' = Some (JNum 50)"
  using writeConfig_demo [of "''defaultLimit''" "Num (Fin 50)"]
  by (simp add: config_set_def coerce_50 set_property_def stringify_def to_double_def)

lemma strict_equal_to_json: "finite_value v \<Longrightarrow> strict_equal v (to_json v)"
  by (cases v rule: to_json.cases) simp_all

lemma known_key_not_proto: "KNOWN_CONFIG_KEYS key \<noteq> None \<Longrightarrow> key \<noteq> ''__proto__''"
  by (auto simp: KNOWN_CONFIG_KEYS_def split: if_splits)

lemma config_set_roundtrip:
  assumes known: "KNOWN_CONFIG_KEYS key \<noteq> None"
      and co: "coerceConfigValue key s = Inr v"
      and fin: "finite_value v"
      and wrote: "fst (config_set key s w) = Inr ()"
  shows "\<exists>j. content (local_config (snd (config_set key s w))) key = Some j \<and> strict_equal v j"
proof -
  have c: "config_set key s w = writeConfig key v w" by (simp add: config_set_def co)
  from wrote c have "local_config (snd (writeConfig key v w)) =
      Parsed (stringify (set_property (content (local_config w)) key (to_json v)))"
    using writeConfig_frame [of key v w] by simp
  with c known_key_not_proto [OF known] strict_equal_to_json [OF fin]
    written_back_coerced [OF co]
  show ?thesis by (simp add: stringify_key)
qed

lemma coerce_rejects_NaN:
  "KNOWN_CONFIG_KEYS key = Some number_type \<Longrightarrow> js_Number s = NaN \<Longrightarrow>
   coerceConfigValue key s =
     Inl (Error (''Value for \"'' @ key @ ''\" must be a number, got \"'' @ s @ ''\".''))"
  by (simp add: coerceConfigValue_def isNaN_def)

section \<open>Properties of the Crashlytics client\<close>

lemma request_404:
  assumes tok: "fst (getAccessToken w) = Inr accessToken"
      and reply: "crashlytics_api w method (BASE_URL @ ''/'' @ path) = Resolved r"
      and nf: "status r = 404"
  shows "fst (request this method path w) =
           Inl (CrashlyticsApiError
             (''Resource not found. Verify that project \"'' @ client_projectNumber this
                @ ''\" and app \"'' @ client_appId this @ ''\" exist and are correct.'')
             404 (statusText r))"
proof -
  obtain w1 where g: "getAccessToken w = (Inr accessToken, w1)"
    using tok by (cases "getAccessToken w") simp
  have "\<not> ok r" using nf by (simp add: ok_def)
  with g reply nf show ?thesis
    by (simp add: request_def Let_def)
qed

lemma sublist_mid: "sublist x (a @ x @ b)"
  by (rule sublist_appendI)

lemma sublist_mid2: "sublist y (a @ x @ b @ y @ c)"
proof -
  have "sublist y ((a @ x @ b) @ y @ c)" by (rule sublist_appendI)
  then show ?thesis by simp
qed

lemma sublist_count: "sublist xs ys \<Longrightarrow> count_list xs c \<le> count_list ys c"
  by (auto simp: sublist_def)

lemma slashes_in_message:
  "count_list (''Resource not found. Verify that project \"'' @ pn
      @ ''\" and app \"'' @ app @ ''\" exist and are correct.'') CHR ''/''
   = count_list pn CHR ''/'' + count_list app CHR ''/''"
  by simp

lemma slashes_in_path:
  "count_list (''projects/'' @ pn @ ''/apps/'' @ app @ rest) CHR ''/''
   = 3 + count_list pn CHR ''/'' + count_list app CHR ''/'' + count_list rest CHR ''/''"
  by simp

lemma message_omits_path:
  "\<not> sublist (''projects/'' @ pn @ ''/apps/'' @ app @ rest)
     (''Resource not found. Verify that project \"'' @ pn
        @ ''\" and app \"'' @ app @ ''\" exist and are correct.'')"
proof
  assume "sublist (''projects/'' @ pn @ ''/apps/'' @ app @ rest)
     (''Resource not found. Verify that project \"'' @ pn
        @ ''\" and app \"'' @ app @ ''\" exist and are correct.'')"
  then have "count_list (''projects/'' @ pn @ ''/apps/'' @ app @ rest) CHR ''/''
      \<le> count_list (''Resource not found. Verify that project \"'' @ pn
        @ ''\" and app \"'' @ app @ ''\" exist and are correct.'') CHR ''/''"
    by (rule sublist_count)
  then have "3 + count_list pn CHR ''/'' + count_list app CHR ''/'' + count_list rest CHR ''/''
      \<le> count_list pn CHR ''/'' + count_list app CHR ''/''"
    by (simp only: slashes_in_message slashes_in_path)
  then show False by simp
qed

text \<open>
  C1, as the code has it. When a token is available and the Crashlytics API answers the
  \<open>getIssue\<close> request with status 404, the client fails with a
  \<open>CrashlyticsApiError\<close> of status code 404 whose message contains the literal project
  number and the literal app id of the client, and contains neither the resource path
  \<open>projects/<number>/apps/<app>\<close> of the client nor the path of the request.
\<close>

theorem getIssue_404:
  assumes tok: "fst (getAccessToken w) = Inr accessToken"
      and reply: "crashlytics_api w ''GET''
                    (BASE_URL @ ''/'' @ resourcePath this @ ''/issues/'' @ issueId) = Resolved r"
      and nf: "status r = 404"
  shows "\<exists>m. fst (getIssue this issueId w) = Inl (CrashlyticsApiError m 404 (statusText r)) \<and>
           m = ''Resource not found. Verify that project \"'' @ client_projectNumber this
                @ ''\" and app \"'' @ client_appId this @ ''\" exist and are correct.'' \<and>
           js_includes m (client_projectNumber this) \<and> js_includes m (client_appId this) \<and>
           \<not> js_includes m (resourcePath this) \<and>
           \<not> js_includes m (resourcePath this @ ''/issues/'' @ issueId)"
proof -
  let ?m = "''Resource not found. Verify that project \"'' @ client_projectNumber this
                @ ''\" and app \"'' @ client_appId this @ ''\" exist and are correct.''"
  have r: "fst (getIssue this issueId w) = Inl (CrashlyticsApiError ?m 404 (statusText r))"
    unfolding getIssue_def using tok reply nf by (rule request_404)
  have a: "js_includes ?m (client_projectNumber this)"
    unfolding js_includes_def by (rule sublist_mid)
  have b: "js_includes ?m (client_appId this)"
    unfolding js_includes_def by (rule sublist_mid2)
  have c: "\<not> js_includes ?m (resourcePath this)"
    unfolding js_includes_def resourcePath_def
    using message_omits_path [of "client_projectNumber this" "client_appId this" "[]"]
    by simp
  have d: "\<not> js_includes ?m (resourcePath this @ ''/issues/'' @ issueId)"
    unfolding js_includes_def resourcePath_def
    using message_omits_path [of "client_projectNumber this" "client_appId this"
        "''/issues/'' @ issueId"]
    by simp
  from r a b c d show ?thesis by blast
qed

lemma not_found_token: "fst (getAccessToken not_found_world) = Inr ''ya29.demo''"
  by (simp add: getAccessToken_def readRefreshToken_def refreshAccessToken_def
      getFirebaseConfigPath_def not_found_world_def demo_world_def demo_token_body_def
      do_io_def ok_def Let_def)

lemma not_found_message:
  "fst (getIssue demo_client ''abc'' not_found_world) =
     Inl (CrashlyticsApiError
       ''Resource not found. Verify that project \"1234567890\" and app \"1:1234567890:android:abcdef\" exist and are correct.''
       404 ''Not Found'')"
  using request_404 [of not_found_world "''ya29.demo''" "''GET''"
      "resourcePath demo_client @ ''/issues/abc''"
      "\<lparr>status = 404, statusText = ''Not Found'',
       body_text = ''{\"error\":\"not found\"}'',
       body_json = Some (JObj [(''error'', JStr ''not found'')])\<rparr>" demo_client]
    not_found_token
  by (simp add: getIssue_def not_found_world_def demo_client_def)

theorem getIssue_404_witness:
  "fst (getIssue demo_client ''abc'' not_found_world) =
     Inl (CrashlyticsApiError
       ''Resource not found. Verify that project \"1234567890\" and app \"1:1234567890:android:abcdef\" exist and are correct.''
       404 ''Not Found'') \<and>
   js_includes (message (projl (fst (getIssue demo_client ''abc'' not_found_world)))) ''1234567890'' \<and>
   js_includes (message (projl (fst (getIssue demo_client ''abc'' not_found_world))))
     ''1:1234567890:android:abcdef''"
  using getIssue_404 [of not_found_world "''ya29.demo''" demo_client "''abc''"
      "\<lparr>status = 404, statusText = ''Not Found'',
       body_text = ''{\"error\":\"not found\"}'',
       body_json = Some (JObj [(''error'', JStr ''not found'')])\<rparr>"]
    not_found_token
  by (auto simp: not_found_world_def demo_client_def)

lemma no_path_in_message:
  "\<not> sublist ''projects/1234567890/apps/1:1234567890:android:abcdef''
     ''Resource not found. Verify that project \"1234567890\" and app \"1:1234567890:android:abcdef\" exist and are correct.''"
  by code_simp

text \<open>
  C1, as stated, fails: for the issue \<open>abc\<close> and a 404 response with body
  \<open>{"error":"not found"}\<close> the message contains neither the resource path prefix
  \<open>projects/.../apps/...\<close> nor the path of the request.
\<close>

theorem getIssue_404_omits_resource_path:
  "fst (getIssue demo_client ''abc'' not_found_world) =
     Inl (CrashlyticsApiError
       ''Resource not found. Verify that project \"1234567890\" and app \"1:1234567890:android:abcdef\" exist and are correct.''
       404 ''Not Found'') \<and>
   resourcePath demo_client = ''projects/1234567890/apps/1:1234567890:android:abcdef'' \<and>
   \<not> js_includes (message (projl (fst (getIssue demo_client ''abc'' not_found_world))))
       (resourcePath demo_client) \<and>
   \<not> js_includes (message (projl (fst (getIssue demo_client ''abc'' not_found_world))))
       (resourcePath demo_client @ ''/issues/abc'')"
proof -
  have p: "resourcePath demo_client = ''projects/1234567890/apps/1:1234567890:android:abcdef''"
    by (simp add: resourcePath_def demo_client_def)
  have q: "\<not> sublist ''projects/1234567890/apps/1:1234567890:android:abcdef/issues/abc''
     ''Resource not found. Verify that project \"1234567890\" and app \"1:1234567890:android:abcdef\" exist and are correct.''"
    by code_simp
  show ?thesis
    unfolding not_found_message p js_includes_def
    using no_path_in_message q by simp
qed

section \<open>Properties of the project resolver\<close>

lemma servers_do_io:
  "project_api (do_io ev w) = project_api w"
  "apps_api (do_io ev w) = apps_api w"
  "firebaserc (do_io ev w) = firebaserc w"
  by (simp_all add: do_io_def)

lemma token_endpoint_not_api: "\<not> prefix FIREBASE_API_BASE TOKEN_ENDPOINT"
  unfolding FIREBASE_API_BASE_def TOKEN_ENDPOINT_def by code_simp

lemma api_calls_do_io_read: "api_calls base (do_io (ReadFile p) w) = api_calls base w"
  by (simp add: api_calls_def trace_do_io)

lemma api_calls_do_io_token:
  "api_calls FIREBASE_API_BASE (do_io (Fetch ''POST'' TOKEN_ENDPOINT) w) = api_calls FIREBASE_API_BASE w"
  by (simp add: api_calls_def trace_do_io token_endpoint_not_api)

lemma api_calls_do_io_get:
  "api_calls FIREBASE_API_BASE (do_io (Fetch ''GET'' (FIREBASE_API_BASE @ rest)) w) =
     api_calls FIREBASE_API_BASE w @ [Fetch ''GET'' (FIREBASE_API_BASE @ rest)]"
  by (simp add: api_calls_def trace_do_io)

lemma same_surroundings_refl: "same_surroundings w w"
  by (simp add: same_surroundings_def)

lemma same_surroundings_do_io: "same_surroundings w (do_io ev w)"
  by (simp add: same_surroundings_def do_io_def)

lemma same_surroundings_trans:
  "same_surroundings a b \<Longrightarrow> same_surroundings b c \<Longrightarrow> same_surroundings a c"
  by (simp add: same_surroundings_def)

lemma refreshAccessToken_effect:
  "same_surroundings w (snd (refreshAccessToken rt w)) \<and>
   api_calls FIREBASE_API_BASE (snd (refreshAccessToken rt w)) = api_calls FIREBASE_API_BASE w"
proof -
  let ?w1 = "do_io (Fetch ''POST'' TOKEN_ENDPOINT) w"
  have "snd (refreshAccessToken rt w) = ?w1 \<or>
        (\<exists>c t. snd (refreshAccessToken rt w) = ?w1\<lparr>cachedAccessToken := c, tokenExpiresAt := t\<rparr>)"
    by (auto simp: refreshAccessToken_def Let_def split: fetch_result.splits option.splits)
  then show ?thesis
    using same_surroundings_do_io [of w "Fetch ''POST'' TOKEN_ENDPOINT"]
      api_calls_do_io_token [of w]
    by (auto simp: same_surroundings_def api_calls_def)
qed

lemma readRefreshToken_world:
  "snd (readRefreshToken w) = do_io (ReadFile (getFirebaseConfigPath w)) w"
  by (simp add: readRefreshToken_def Let_def split: fnode.splits)

lemma getAccessToken_effect:
  "same_surroundings w (snd (getAccessToken w)) \<and>
   api_calls FIREBASE_API_BASE (snd (getAccessToken w)) = api_calls FIREBASE_API_BASE w"
proof (cases "truthy (cachedAccessToken w) \<and> clock w < tokenExpiresAt w")
  case True
  then show ?thesis by (simp add: getAccessToken_hit same_surroundings_refl)
next
  case False
  let ?w1 = "do_io (ReadFile (getFirebaseConfigPath w)) w"
  obtain r where rr: "readRefreshToken w = (r, ?w1)"
    using readRefreshToken_world [of w] by (cases "readRefreshToken w") simp
  have s1: "same_surroundings w ?w1" by (rule same_surroundings_do_io)
  have a1: "api_calls FIREBASE_API_BASE ?w1 = api_calls FIREBASE_API_BASE w"
    by (rule api_calls_do_io_read)
  show ?thesis
  proof (cases r)
    case (Inl e)
    with False rr have "getAccessToken w = (Inl e, ?w1)" by (simp add: getAccessToken_miss_Inl)
    with s1 a1 show ?thesis by simp
  next
    case (Inr rt)
    with False rr have "getAccessToken w = refreshAccessToken rt ?w1"
      by (simp add: getAccessToken_miss_Inr)
    with refreshAccessToken_effect [of ?w1 rt] s1 a1 show ?thesis
      by (auto intro: same_surroundings_trans)
  qed
qed

lemma firebaseApiGet_cases:
  obtains (unauthenticated) e w' where
      "firebaseApiGet api path w = (Inl e, w')"
      "api_calls FIREBASE_API_BASE w' = api_calls FIREBASE_API_BASE w"
      "same_surroundings w w'"
  | (called) res w' where
      "firebaseApiGet api path w = (res, w')"
      "api_calls FIREBASE_API_BASE w' =
         api_calls FIREBASE_API_BASE w @ [Fetch ''GET'' (FIREBASE_API_BASE @ ''/'' @ path)]"
      "same_surroundings w w'"
      "\<forall>v. res = Inr v \<longrightarrow>
         (\<exists>r. api w (FIREBASE_API_BASE @ ''/'' @ path) = Resolved r \<and> ok r \<and> body_json r = Some v)"
proof -
  obtain t w1 where g: "getAccessToken w = (t, w1)" by (cases "getAccessToken w")
  from getAccessToken_effect [of w] g
  have s1: "same_surroundings w w1"
    and a1: "api_calls FIREBASE_API_BASE w1 = api_calls FIREBASE_API_BASE w" by simp_all
  show ?thesis
  proof (cases t)
    case (Inl e)
    with g have "firebaseApiGet api path w = (Inl e, w1)" by (simp add: firebaseApiGet_def)
    then show ?thesis using a1 s1 by (rule unauthenticated)
  next
    case (Inr accessToken)
    let ?url = "FIREBASE_API_BASE @ ''/'' @ path"
    let ?w2 = "do_io (Fetch ''GET'' ?url) w1"
    have w2: "snd (firebaseApiGet api path w) = ?w2"
      using g Inr
      by (simp add: firebaseApiGet_def Let_def split: fetch_result.splits option.splits)
    have a2: "api_calls FIREBASE_API_BASE ?w2 = api_calls FIREBASE_API_BASE w @ [Fetch ''GET'' ?url]"
      using api_calls_do_io_get [of "''/'' @ path" w1] a1 by simp
    have s2: "same_surroundings w ?w2"
      using s1 same_surroundings_do_io by (rule same_surroundings_trans)
    have v: "\<forall>v. fst (firebaseApiGet api path w) = Inr v \<longrightarrow>
         (\<exists>r. api w ?url = Resolved r \<and> ok r \<and> body_json r = Some v)"
      using g Inr
      by (auto simp: firebaseApiGet_def Let_def split: fetch_result.splits option.splits if_splits)
    have "firebaseApiGet api path w = (fst (firebaseApiGet api path w), ?w2)"
      using w2 by (cases "firebaseApiGet api path w") simp
    then show ?thesis using a2 s2 v by (rule called)
  qed
qed

lemma string_field_or_empty: "string_field r key = string_field (Some (or_empty r)) key"
  by (simp add: string_field_def)

lemma network_calls_do_io_read: "network_calls (do_io (ReadFile p) w) = network_calls w"
  by (simp add: network_calls_def trace_do_io)

lemma readFirebaseRc_ok:
  assumes "readable (firebaserc w)"
  shows "readFirebaseRc w =
           (Inr (default_project (firebaserc w)), do_io (ReadFile (join [cwd w, ''.firebaserc''])) w)"
  using assms by (cases "firebaserc w") (simp_all add: readFirebaseRc_def Let_def)

lemma readConfig_readable:
  assumes "readable (local_config w)"
  shows "\<exists>r. readConfig w = (Inr r, do_io (ReadFile (getLocalConfigPath w)) w) \<and>
             or_empty r = content (local_config w)"
  using assms by (cases "local_config w") (simp_all add: readConfig_def Let_def)

lemma resolveProject_after_id:
  "truthy (Some pid) \<Longrightarrow>
   (if \<not> truthy (Some pid) then (Inl (Error no_project_message), wr)
    else case firebaseApiGet project_api (''projects/'' @ the (Some pid)) wr of
           (Inl e, w3) \<Rightarrow> (Inl e, w3)
         | (Inr project, w3) \<Rightarrow>
             (Inr \<lparr>projectId = projectId project, projectNumber = projectNumber project,
                   displayName = displayName project, name = name project\<rparr>, w3))
   = exchange pid wr"
  by (simp add: exchange_def split: prod.splits sum.splits)

lemma resolveProject_unfold:
  assumes h1: "truthy projectIdOrFlag \<or> readable (firebaserc w)"
      and h2: "truthy projectIdOrFlag \<or> truthy (default_project (firebaserc w)) \<or>
               readable (local_config w)"
  shows "\<exists>wr. wr = project_reads projectIdOrFlag w \<and> same_surroundings w wr \<and>
           api_calls FIREBASE_API_BASE wr = api_calls FIREBASE_API_BASE w \<and>
           network_calls wr = network_calls w \<and>
           resolveProject projectIdOrFlag w =
             (case first_value (project_candidates projectIdOrFlag w) of
                None \<Rightarrow> (Inl (Error no_project_message), wr)
              | Some pid \<Rightarrow> exchange pid wr)"
proof (cases "truthy projectIdOrFlag")
  case True
  then obtain pid where p: "projectIdOrFlag = Some pid" "truthy (Some pid)"
    by (cases projectIdOrFlag) simp_all
  have "resolveProject projectIdOrFlag w = exchange pid w"
    unfolding resolveProject_def no_project_message_def [symmetric] p(1)
    using p(2) resolveProject_after_id [OF p(2), of w] by simp
  moreover have "first_value (project_candidates projectIdOrFlag w) = Some pid"
    using p by (simp add: project_candidates_def)
  moreover have "w = project_reads projectIdOrFlag w"
    using True by (simp add: project_reads_def)
  ultimately show ?thesis
    using same_surroundings_refl [of w] by auto
next
  case False
  with h1 have rc: "readable (firebaserc w)" by simp
  let ?w1 = "do_io (ReadFile (join [cwd w, ''.firebaserc''])) w"
  let ?d = "default_project (firebaserc w)"
  have r1: "readFirebaseRc w = (Inr ?d, ?w1)" using rc by (rule readFirebaseRc_ok)
  have s1: "same_surroundings w ?w1" by (rule same_surroundings_do_io)
  have a1: "api_calls FIREBASE_API_BASE ?w1 = api_calls FIREBASE_API_BASE w"
    by (rule api_calls_do_io_read)
  have n1: "network_calls ?w1 = network_calls w" by (rule network_calls_do_io_read)
  show ?thesis
  proof (cases "truthy ?d")
    case True
    then obtain pid where p: "?d = Some pid" "truthy (Some pid)"
      by (cases ?d) simp_all
    have "resolveProject projectIdOrFlag w = exchange pid ?w1"
      unfolding resolveProject_def no_project_message_def [symmetric]
      using False r1 p resolveProject_after_id [OF p(2), of ?w1] by simp
    moreover have "first_value (project_candidates projectIdOrFlag w) = Some pid"
      using False p by (simp add: project_candidates_def)
    moreover have "?w1 = project_reads projectIdOrFlag w"
      using False True by (simp add: project_reads_def Let_def)
    ultimately show ?thesis using s1 a1 n1 by auto
  next
    case nd: False
    with False h2 have "readable (local_config w)" by simp
    then have "readable (local_config ?w1)" by (simp add: files_do_io)
    from readConfig_readable [OF this] obtain r where
      r2: "readConfig ?w1 = (Inr r, do_io (ReadFile (getLocalConfigPath ?w1)) ?w1)"
      and c: "or_empty r = content (local_config w)" by (auto simp: files_do_io)
    let ?w2 = "do_io (ReadFile (getLocalConfigPath ?w1)) ?w1"
    let ?c = "string_field (Some (content (local_config w))) ''project''"
    have sf: "string_field r ''project'' = ?c"
      using string_field_or_empty [of r "''project''"] c by simp
    have s2: "same_surroundings w ?w2"
      using s1 same_surroundings_do_io by (rule same_surroundings_trans)
    have a2: "api_calls FIREBASE_API_BASE ?w2 = api_calls FIREBASE_API_BASE w"
      using a1 by (simp add: api_calls_do_io_read)
    have n2: "network_calls ?w2 = network_calls w"
      using n1 by (simp add: network_calls_do_io_read)
    have fv: "first_value (project_candidates projectIdOrFlag w) = (if truthy ?c then ?c else None)"
      using False nd by (simp add: project_candidates_def)
    have pr: "?w2 = project_reads projectIdOrFlag w"
      using False nd by (simp add: project_reads_def Let_def paths_do_io)
    show ?thesis
    proof (cases "truthy ?c")
      case True
      then obtain pid where p: "?c = Some pid" "truthy (Some pid)"
        by (cases ?c) simp_all
      have "resolveProject projectIdOrFlag w = exchange pid ?w2"
        unfolding resolveProject_def no_project_message_def [symmetric]
        using False nd r1 r2 sf p resolveProject_after_id [OF p(2), of ?w2] by simp
      with fv p s2 a2 n2 pr show ?thesis by auto
    next
      case nc: False
      have "resolveProject projectIdOrFlag w = (Inl (Error no_project_message), ?w2)"
        unfolding resolveProject_def no_project_message_def [symmetric]
        using False nd nc r1 r2 sf by simp
      with fv nc s2 a2 n2 pr show ?thesis by auto
    qed
  qed
qed

lemma exchange_eq: "exchange pid w = firebaseApiGet project_api (''projects/'' @ pid) w"
  by (simp add: exchange_def split: prod.splits sum.splits)

lemma firebaseApiGet_unauthenticated:
  assumes "fst (getAccessToken w) = Inl e"
  shows "fst (firebaseApiGet api path w) = Inl e \<and>
         api_calls FIREBASE_API_BASE (snd (firebaseApiGet api path w)) = api_calls FIREBASE_API_BASE w"
proof -
  obtain w1 where g: "getAccessToken w = (Inl e, w1)"
    using assms by (cases "getAccessToken w") simp
  then have "firebaseApiGet api path w = (Inl e, w1)" by (simp add: firebaseApiGet_def)
  with getAccessToken_effect [of w] g show ?thesis by simp
qed

lemma firebaseApiGet_authenticated:
  assumes "fst (getAccessToken w) = Inr tok"
  shows "api_calls FIREBASE_API_BASE (snd (firebaseApiGet api path w)) =
           api_calls FIREBASE_API_BASE w @ [Fetch ''GET'' (FIREBASE_API_BASE @ ''/'' @ path)] \<and>
         fst (firebaseApiGet api path w) =
           (case api w (FIREBASE_API_BASE @ ''/'' @ path) of
              Rejected m \<Rightarrow> Inl (Error (''Network error while calling Firebase API: '' @ m))
            | Resolved r \<Rightarrow>
                (if \<not> ok r then Inl (api_failure r)
                 else case body_json r of
                        None \<Rightarrow> Inl (Error ''Failed to parse JSON response from the Firebase API.'')
                      | Some v \<Rightarrow> Inr v))"
proof -
  obtain w1 where g: "getAccessToken w = (Inr tok, w1)"
    using assms by (cases "getAccessToken w") simp
  from getAccessToken_effect [of w] g
  have a1: "api_calls FIREBASE_API_BASE w1 = api_calls FIREBASE_API_BASE w" by simp
  let ?url = "FIREBASE_API_BASE @ ''/'' @ path"
  have w2: "snd (firebaseApiGet api path w) = do_io (Fetch ''GET'' ?url) w1"
    using g by (simp add: firebaseApiGet_def Let_def split: fetch_result.splits option.splits)
  have calls: "api_calls FIREBASE_API_BASE (snd (firebaseApiGet api path w)) =
           api_calls FIREBASE_API_BASE w @ [Fetch ''GET'' ?url]"
    unfolding w2 using api_calls_do_io_get [of "''/'' @ path" w1] a1 by simp
  have res: "fst (firebaseApiGet api path w) =
           (case api w ?url of
              Rejected m \<Rightarrow> Inl (Error (''Network error while calling Firebase API: '' @ m))
            | Resolved r \<Rightarrow>
                (if \<not> ok r then Inl (api_failure r)
                 else case body_json r of
                        None \<Rightarrow> Inl (Error ''Failed to parse JSON response from the Firebase API.'')
                      | Some v \<Rightarrow> Inr v))"
    using g
    by (simp add: firebaseApiGet_def api_failure_def Let_def
        split: fetch_result.splits option.splits)
  from calls res show ?thesis by (rule conjI)
qed

text \<open>
  C3. The project id is the first of: the explicit argument, the default project of
  \<open>.firebaserc\<close>, the \<open>project\<close> key of the local \<open>.fcc.json\<close> (a file is consulted
  only when the candidates before it gave nothing, and is then absent or well formed).
  If none gives a value, \<open>resolveProject\<close> fails with the "No project specified" error
  and makes no network call. If an id is found, what follows is decided by the token
  cache and the Firebase Management API alone. When no access token can be obtained,
  \<open>resolveProject\<close> fails with the error of \<open>getAccessToken\<close> and sends nothing to the
  API. When a token is obtained, it sends exactly one request to the API, the GET of
  \<open>projects/<id>\<close>, and returns what that request gives: the network error, the error
  of a non-2xx status, the parse error of a 2xx body that is not JSON, and otherwise the
  project that the body describes, never the raw id.
\<close>

theorem resolveProject_precedence:
  assumes h1: "truthy projectIdOrFlag \<or> readable (firebaserc w)"
      and h2: "truthy projectIdOrFlag \<or> truthy (default_project (firebaserc w)) \<or>
               readable (local_config w)"
      and h3: "well_typed (content (local_config w)) ''project''"
  shows "(first_value (project_candidates projectIdOrFlag w) = None \<longrightarrow>
            fst (resolveProject projectIdOrFlag w) = Inl (Error no_project_message) \<and>
            network_calls (snd (resolveProject projectIdOrFlag w)) = network_calls w) \<and>
         (\<forall>pid. first_value (project_candidates projectIdOrFlag w) = Some pid \<longrightarrow>
            (\<forall>e. fst (getAccessToken (project_reads projectIdOrFlag w)) = Inl e \<longrightarrow>
               fst (resolveProject projectIdOrFlag w) = Inl e \<and>
               api_calls FIREBASE_API_BASE (snd (resolveProject projectIdOrFlag w)) =
                 api_calls FIREBASE_API_BASE w) \<and>
            (\<forall>tok. fst (getAccessToken (project_reads projectIdOrFlag w)) = Inr tok \<longrightarrow>
               api_calls FIREBASE_API_BASE (snd (resolveProject projectIdOrFlag w)) =
                 api_calls FIREBASE_API_BASE w @
                   [Fetch ''GET'' (FIREBASE_API_BASE @ ''/projects/'' @ pid)] \<and>
               (\<forall>m. project_api w (FIREBASE_API_BASE @ ''/projects/'' @ pid) = Rejected m \<longrightarrow>
                  fst (resolveProject projectIdOrFlag w) =
                    Inl (Error (''Network error while calling Firebase API: '' @ m))) \<and>
               (\<forall>r. project_api w (FIREBASE_API_BASE @ ''/projects/'' @ pid) = Resolved r \<longrightarrow>
                  (\<not> ok r \<longrightarrow> fst (resolveProject projectIdOrFlag w) = Inl (api_failure r)) \<and>
                  (ok r \<and> body_json r = None \<longrightarrow>
                     fst (resolveProject projectIdOrFlag w) =
                       Inl (Error ''Failed to parse JSON response from the Firebase API.'')) \<and>
                  (\<forall>p. ok r \<and> body_json r = Some p \<longrightarrow>
                     fst (resolveProject projectIdOrFlag w) = Inr p))))"
proof -
  let ?wr = "project_reads projectIdOrFlag w"
  from resolveProject_unfold [OF h1 h2] have
    s: "same_surroundings w ?wr"
    and a: "api_calls FIREBASE_API_BASE ?wr = api_calls FIREBASE_API_BASE w"
    and n: "network_calls ?wr = network_calls w"
    and u: "resolveProject projectIdOrFlag w =
             (case first_value (project_candidates projectIdOrFlag w) of
                None \<Rightarrow> (Inl (Error no_project_message), ?wr)
              | Some pid \<Rightarrow> exchange pid ?wr)" by blast+
  have pa: "project_api ?wr = project_api w" using s by (simp add: same_surroundings_def)
  show ?thesis
  proof (cases "first_value (project_candidates projectIdOrFlag w)")
    case None
    with u n show ?thesis by simp
  next
    case (Some pid)
    let ?url = "FIREBASE_API_BASE @ ''/projects/'' @ pid"
    have url: "FIREBASE_API_BASE @ ''/'' @ ''projects/'' @ pid = ?url" by simp
    from u Some have e: "resolveProject projectIdOrFlag w =
        firebaseApiGet project_api (''projects/'' @ pid) ?wr"
      by (simp add: exchange_eq)
    have no_token: "\<forall>e'. fst (getAccessToken ?wr) = Inl e' \<longrightarrow>
               fst (resolveProject projectIdOrFlag w) = Inl e' \<and>
               api_calls FIREBASE_API_BASE (snd (resolveProject projectIdOrFlag w)) =
                 api_calls FIREBASE_API_BASE w"
      using firebaseApiGet_unauthenticated [of ?wr _ project_api "''projects/'' @ pid"] e a
      by simp
    have token: "\<forall>tok. fst (getAccessToken ?wr) = Inr tok \<longrightarrow>
               api_calls FIREBASE_API_BASE (snd (resolveProject projectIdOrFlag w)) =
                 api_calls FIREBASE_API_BASE w @ [Fetch ''GET'' ?url] \<and>
               (\<forall>m. project_api w ?url = Rejected m \<longrightarrow>
                  fst (resolveProject projectIdOrFlag w) =
                    Inl (Error (''Network error while calling Firebase API: '' @ m))) \<and>
               (\<forall>r. project_api w ?url = Resolved r \<longrightarrow>
                  (\<not> ok r \<longrightarrow> fst (resolveProject projectIdOrFlag w) = Inl (api_failure r)) \<and>
                  (ok r \<and> body_json r = None \<longrightarrow>
                     fst (resolveProject projectIdOrFlag w) =
                       Inl (Error ''Failed to parse JSON response from the Firebase API.'')) \<and>
                  (\<forall>p. ok r \<and> body_json r = Some p \<longrightarrow>
                     fst (resolveProject projectIdOrFlag w) = Inr p))"
    proof (intro allI impI)
      fix tok assume t: "fst (getAccessToken ?wr) = Inr tok"
      from firebaseApiGet_authenticated [OF t, of project_api "''projects/'' @ pid"]
      have c: "api_calls FIREBASE_API_BASE (snd (resolveProject projectIdOrFlag w)) =
                 api_calls FIREBASE_API_BASE w @ [Fetch ''GET'' ?url]"
        and r: "fst (resolveProject projectIdOrFlag w) =
           (case project_api w ?url of
              Rejected m \<Rightarrow> Inl (Error (''Network error while calling Firebase API: '' @ m))
            | Resolved r \<Rightarrow>
                (if \<not> ok r then Inl (api_failure r)
                 else case body_json r of
                        None \<Rightarrow> Inl (Error ''Failed to parse JSON response from the Firebase API.'')
                      | Some v \<Rightarrow> Inr v))"
        unfolding url e [symmetric] pa a by blast+
      show "api_calls FIREBASE_API_BASE (snd (resolveProject projectIdOrFlag w)) =
                 api_calls FIREBASE_API_BASE w @ [Fetch ''GET'' ?url] \<and>
               (\<forall>m. project_api w ?url = Rejected m \<longrightarrow>
                  fst (resolveProject projectIdOrFlag w) =
                    Inl (Error (''Network error while calling Firebase API: '' @ m))) \<and>
               (\<forall>r. project_api w ?url = Resolved r \<longrightarrow>
                  (\<not> ok r \<longrightarrow> fst (resolveProject projectIdOrFlag w) = Inl (api_failure r)) \<and>
                  (ok r \<and> body_json r = None \<longrightarrow>
                     fst (resolveProject projectIdOrFlag w) =
                       Inl (Error ''Failed to parse JSON response from the Firebase API.'')) \<and>
                  (\<forall>p. ok r \<and> body_json r = Some p \<longrightarrow>
                     fst (resolveProject projectIdOrFlag w) = Inr p))"
        using c by (simp add: r)
    qed
    from Some no_token token show ?thesis by simp
  qed
qed

lemma project_world_files:
  "firebaserc project_world = Parsed (Some ''proj-B'')"
  "local_config project_world = Parsed [''project'' \<mapsto> JStr ''proj-C'']"
  "trace project_world = []"
  by (simp_all add: project_world_def demo_world_def)

lemma project_world_candidates:
  "first_value (project_candidates (Some ''proj-A'') project_world) = Some ''proj-A''"
  "first_value (project_candidates None project_world) = Some ''proj-B''"
  "first_value (project_candidates None (project_world\<lparr>firebaserc := Absent\<rparr>)) = Some ''proj-C''"
  "first_value (project_candidates None
     (project_world\<lparr>firebaserc := Absent, local_config := Absent\<rparr>)) = None"
  by (simp_all add: project_candidates_def project_world_files string_field_def)

lemma project_world_token:
  "fst (getAccessToken (do_io ev project_world)) = Inr ''ya29.demo''"
  by (simp add: getAccessToken_def readRefreshToken_def refreshAccessToken_def
      getFirebaseConfigPath_def project_world_def demo_world_def demo_token_body_def
      do_io_def ok_def Let_def)


lemmas resolver_eval =
  resolveProject_def readFirebaseRc_def readConfig_def firebaseApiGet_def getAccessToken_def
  readRefreshToken_def refreshAccessToken_def getFirebaseConfigPath_def getLocalConfigPath_def
  string_field_def FIREBASE_API_BASE_def project_world_def demo_world_def demo_token_body_def
  do_io_def ok_def Let_def

lemma project_scenario:
  "fst (resolveProject (Some ''proj-A'') project_world) =
     Inr \<lparr>projectId = ''proj-A'', projectNumber = ''1234567890'', displayName = ''Demo'',
          name = ''projects/proj-A''\<rparr>"
  "fst (resolveProject None project_world) =
     Inr \<lparr>projectId = ''proj-B'', projectNumber = ''1234567890'', displayName = ''Demo'',
          name = ''projects/proj-B''\<rparr>"
  "fst (resolveProject None (project_world\<lparr>firebaserc := Absent\<rparr>)) =
     Inr \<lparr>projectId = ''proj-C'', projectNumber = ''1234567890'', displayName = ''Demo'',
          name = ''projects/proj-C''\<rparr>"
  "fst (resolveProject None (project_world\<lparr>firebaserc := Absent, local_config := Absent\<rparr>)) =
     Inl (Error no_project_message)"
  by (simp_all add: resolver_eval no_project_message_def)

lemma project_reads_token:
  "fst (getAccessToken (project_reads None project_world)) = Inr ''ya29.demo''"
  unfolding project_reads_def
  by (simp add: Let_def project_world_files project_world_token)

lemma project_world_api:
  "project_api project_world (FIREBASE_API_BASE @ ''/projects/proj-B'') =
     Resolved \<lparr>status = 200, statusText = ''OK'', body_text = [],
       body_json = Some \<lparr>projectId = ''proj-B'', projectNumber = ''1234567890'',
         displayName = ''Demo'', name = ''projects/proj-B''\<rparr>\<rparr>"
  by (simp add: project_world_def FIREBASE_API_BASE_def)

theorem resolveProject_precedence_witness:
  "first_value (project_candidates None project_world) = Some ''proj-B'' \<and>
   fst (getAccessToken (project_reads None project_world)) = Inr ''ya29.demo'' \<and>
   fst (resolveProject None project_world) =
     Inr \<lparr>projectId = ''proj-B'', projectNumber = ''1234567890'', displayName = ''Demo'',
          name = ''projects/proj-B''\<rparr> \<and>
   api_calls FIREBASE_API_BASE (snd (resolveProject None project_world)) =
     [Fetch ''GET'' (FIREBASE_API_BASE @ ''/projects/proj-B'')]"
  using resolveProject_precedence [of None project_world]
  by (simp add: project_world_candidates project_reads_token project_world_api
      project_world_files well_typed_def api_calls_def ok_def)

section \<open>Properties of the app resolver\<close>

lemma resolveApp_flag:
  "truthy appIdOrFlag \<Longrightarrow> resolveApp appIdOrFlag pn w = (Inr (the appIdOrFlag), w)"
  by (simp add: resolveApp_def)

lemma resolveApp_config:
  assumes "\<not> truthy appIdOrFlag" "readConfig w = (Inr r, w1)" "truthy (string_field r ''app'')"
  shows "resolveApp appIdOrFlag pn w = (Inr (the (string_field r ''app'')), w1)"
  using assms by (simp add: resolveApp_def)

lemma resolveApp_no_project:
  assumes "\<not> truthy appIdOrFlag" "readConfig w = (Inr r, w1)" "\<not> truthy (string_field r ''app'')"
    "\<not> truthy pn"
  shows "resolveApp appIdOrFlag pn w = (Inl (Error no_app_message), w1)"
  using assms by (simp add: resolveApp_def no_app_message_def)

lemma resolveApp_list:
  assumes "\<not> truthy appIdOrFlag" "readConfig w = (Inr r, w1)" "\<not> truthy (string_field r ''app'')"
    "truthy (Some p)"
  shows "fst (resolveApp appIdOrFlag (Some p) w) =
           (case fst (listApps p w1) of
              Inl e \<Rightarrow> Inl e
            | Inr [] \<Rightarrow> Inl (Error (no_apps_found_message p))
            | Inr (selectedApp # _) \<Rightarrow> Inr (appId selectedApp))"
  using assms
  by (simp add: resolveApp_def no_apps_found_message_def split: prod.splits sum.splits list.splits)

text \<open>
  C7. The app id is the first of: the explicit argument, the \<open>app\<close> key of the local
  \<open>.fcc.json\<close> (read only when there is no explicit argument, and then absent or well
  formed); either is returned without any network call. If neither gives a value: without
  a project number \<open>resolveApp\<close> fails with the "Could not determine the Firebase app"
  error; with one, it lists the project's apps, fails as the listing fails, fails with
  the "No apps found in Firebase project" error, which names the project, when the list
  is empty, and otherwise returns the id of the first app of the list. Lemma
  \<open>listApps_live\<close> shows that the list is what the servers answered, Android apps first.
\<close>

theorem resolveApp_precedence:
  assumes h1: "truthy appIdOrFlag \<or> readable (local_config w)"
      and h2: "well_typed (content (local_config w)) ''app''"
  shows "(\<forall>aid. first_value (app_candidates appIdOrFlag w) = Some aid \<longrightarrow>
            fst (resolveApp appIdOrFlag pn w) = Inr aid \<and>
            network_calls (snd (resolveApp appIdOrFlag pn w)) = network_calls w) \<and>
         (first_value (app_candidates appIdOrFlag w) = None \<longrightarrow>
            (\<not> truthy pn \<longrightarrow> fst (resolveApp appIdOrFlag pn w) = Inl (Error no_app_message)) \<and>
            (\<forall>p. pn = Some p \<and> p \<noteq> [] \<longrightarrow>
               (\<forall>e. fst (listApps p (do_io (ReadFile (getLocalConfigPath w)) w)) = Inl e \<longrightarrow>
                  fst (resolveApp appIdOrFlag pn w) = Inl e) \<and>
               (fst (listApps p (do_io (ReadFile (getLocalConfigPath w)) w)) = Inr [] \<longrightarrow>
                  fst (resolveApp appIdOrFlag pn w) = Inl (Error (no_apps_found_message p)) \<and>
                  js_includes (no_apps_found_message p) p) \<and>
               (\<forall>selectedApp rest.
                  fst (listApps p (do_io (ReadFile (getLocalConfigPath w)) w)) = Inr (selectedApp # rest) \<longrightarrow>
                  fst (resolveApp appIdOrFlag pn w) = Inr (appId selectedApp))))"
proof (cases "truthy appIdOrFlag")
  case True
  then obtain aid where a: "appIdOrFlag = Some aid" by (cases appIdOrFlag) simp_all
  with True have "first_value (app_candidates appIdOrFlag w) = Some aid"
    by (simp add: app_candidates_def)
  with resolveApp_flag [OF True, of pn w] a show ?thesis by simp
next
  case False
  with h1 have "readable (local_config w)" by simp
  from readConfig_readable [OF this] obtain r where
    r: "readConfig w = (Inr r, do_io (ReadFile (getLocalConfigPath w)) w)"
    and c: "or_empty r = content (local_config w)" by blast
  let ?w1 = "do_io (ReadFile (getLocalConfigPath w)) w"
  let ?c = "string_field (Some (content (local_config w))) ''app''"
  have sf: "string_field r ''app'' = ?c"
    using string_field_or_empty [of r "''app''"] c by simp
  have fv: "first_value (app_candidates appIdOrFlag w) = (if truthy ?c then ?c else None)"
    using False by (simp add: app_candidates_def)
  show ?thesis
  proof (cases "truthy ?c")
    case True
    then obtain aid where a: "?c = Some aid" by (cases ?c) simp_all
    from True sf have "truthy (string_field r ''app'')" by simp
    from resolveApp_config [OF False r this, of pn] sf a fv True show ?thesis
      by (simp add: network_calls_do_io_read)
  next
    case nc: False
    then have nr: "\<not> truthy (string_field r ''app'')" using sf by simp
    have none: "first_value (app_candidates appIdOrFlag w) = None" using fv nc by simp
    have inc: "\<And>p. js_includes (no_apps_found_message p) p"
      unfolding js_includes_def no_apps_found_message_def by (rule sublist_appendI)
    show ?thesis
    proof (cases "truthy pn")
      case np: False
      then have "\<And>p. pn = Some p \<Longrightarrow> p = []" by (cases pn) auto
      with resolveApp_no_project [OF False r nr np] none np show ?thesis by auto
    next
      case True
      then obtain p where p: "pn = Some p" "truthy (Some p)" by (cases pn) simp_all
      from resolveApp_list [OF False r nr p(2)] p none inc [of p] show ?thesis
        by (auto split: sum.splits list.splits)
    qed
  qed
qed

lemma firebaseApiGet_Inr:
  assumes "firebaseApiGet api path w = (Inr v, w')"
  shows "same_surroundings w w' \<and>
         (\<exists>r. api w (FIREBASE_API_BASE @ ''/'' @ path) = Resolved r \<and> ok r \<and> body_json r = Some v)"
  using assms by (cases api path w rule: firebaseApiGet_cases) auto

lemma listApps_live:
  assumes "fst (listApps p w) = Inr apps"
  shows "\<exists>ra a ri i.
           apps_api w (FIREBASE_API_BASE @ ''/projects/'' @ p @ ''/androidApps'') = Resolved ra \<and>
           ok ra \<and> body_json ra = Some a \<and>
           apps_api w (FIREBASE_API_BASE @ ''/projects/'' @ p @ ''/iosApps'') = Resolved ri \<and>
           ok ri \<and> body_json ri = Some i \<and>
           apps = (case a of None \<Rightarrow> [] | Some xs \<Rightarrow> map android_app xs)
                @ (case i of None \<Rightarrow> [] | Some xs \<Rightarrow> map ios_app xs)"
proof -
  let ?A = "firebaseApiGet (apps_api :: world \<Rightarrow> string \<Rightarrow> RawApp list option fetch_result)
              (''projects/'' @ p @ ''/androidApps'') w"
  obtain ar w1 where a: "?A = (ar, w1)" by (cases ?A)
  from assms a obtain av where av: "ar = Inr av"
    by (cases ar) (simp_all add: listApps_def)
  let ?I = "firebaseApiGet (apps_api :: world \<Rightarrow> string \<Rightarrow> RawApp list option fetch_result)
              (''projects/'' @ p @ ''/iosApps'') w1"
  obtain ir w2 where i: "?I = (ir, w2)" by (cases ?I)
  from assms a av i obtain iv where iv: "ir = Inr iv"
    by (cases ir) (simp_all add: listApps_def)
  from assms a av i iv
  have apps: "apps = (case av of None \<Rightarrow> [] | Some xs \<Rightarrow> map android_app xs)
                @ (case iv of None \<Rightarrow> [] | Some xs \<Rightarrow> map ios_app xs)"
    by (simp add: listApps_def)
  from firebaseApiGet_Inr [OF a [unfolded av]] obtain ra where
    s1: "same_surroundings w w1"
    and ra: "apps_api w (FIREBASE_API_BASE @ ''/'' @ ''projects/'' @ p @ ''/androidApps'') = Resolved ra"
       "ok ra" "body_json ra = Some av" by blast
  from firebaseApiGet_Inr [OF i [unfolded iv]] obtain ri where
    ri: "apps_api w1 (FIREBASE_API_BASE @ ''/'' @ ''projects/'' @ p @ ''/iosApps'') = Resolved ri"
       "ok ri" "body_json ri = Some iv" by blast
  have "apps_api w1 = apps_api w" using s1 by (simp add: same_surroundings_def)
  with ra ri apps show ?thesis by simp
qed

lemmas apps_eval =
  listApps_def firebaseApiGet_def getAccessToken_def
  readRefreshToken_def refreshAccessToken_def getFirebaseConfigPath_def getLocalConfigPath_def
  FIREBASE_API_BASE_def apps_world_def demo_world_def demo_token_body_def
  do_io_def ok_def Let_def

lemma apps_world_list:
  "fst (listApps ''1234567890''
     (do_io (ReadFile (getLocalConfigPath (apps_world android))) (apps_world android))) =
   Inr (map android_app android)"
  by (simp add: apps_eval)

lemma apps_world_candidates:
  "first_value (app_candidates None (apps_world android)) = None"
  "local_config (apps_world android) = Absent"
  by (simp_all add: app_candidates_def apps_world_def string_field_def)

theorem resolveApp_precedence_witness:
  "fst (resolveApp None (Some ''1234567890'') (apps_world [demo_android_app])) =
     Inr ''1:1234567890:android:abcdef'' \<and>
   fst (resolveApp None (Some ''1234567890'') (apps_world [])) =
     Inl (Error ''No apps found in Firebase project \"1234567890\". Register an app in the Firebase Console first.'') \<and>
   fst (resolveApp None None (apps_world [])) = Inl (Error no_app_message) \<and>
   fst (resolveApp (Some ''flag-app'') None (apps_world [])) = Inr ''flag-app''"
proof -
  have a: "fst (resolveApp None (Some ''1234567890'') (apps_world [demo_android_app])) =
     Inr ''1:1234567890:android:abcdef''"
    using resolveApp_precedence [of None "apps_world [demo_android_app]" "Some ''1234567890''"]
    by (simp add: apps_world_candidates apps_world_list well_typed_def
        android_app_def demo_android_app_def)
  have b: "fst (resolveApp None (Some ''1234567890'') (apps_world [])) =
     Inl (Error ''No apps found in Firebase project \"1234567890\". Register an app in the Firebase Console first.'')"
    using resolveApp_precedence [of None "apps_world []" "Some ''1234567890''"]
    by (simp add: apps_world_candidates apps_world_list well_typed_def no_apps_found_message_def)
  have c: "fst (resolveApp None None (apps_world [])) = Inl (Error no_app_message)"
    using resolveApp_precedence [of None "apps_world []" None]
    by (simp add: apps_world_candidates well_typed_def)
  have d: "fst (resolveApp (Some ''flag-app'') None (apps_world [])) = Inr ''flag-app''"
    using resolveApp_precedence [of "Some ''flag-app''" "apps_world []" None]
    by (simp add: app_candidates_def apps_world_candidates well_typed_def)
  from a b c d show ?thesis by (intro conjI)
qed

end
